theory Spec2Isabelle
  imports Main
begin

section \<open>The store: the SQLite tables of \<open>explant.py\<close>\<close>

text \<open>
  Every table of \<open>init_db\<close> is a list of rows in insertion (rowid) order. Integer columns
  are \<open>int\<close> (Python and SQLite integers), nullable columns are \<open>option\<close> (\<open>None\<close> is SQL
  \<open>NULL\<close>), text columns are \<open>string\<close>. A \<open>DATE\<close> column holds an ISO calendar date; it is
  modelled by its day number, so that \<open>pd.Timedelta(days=1)\<close> is \<open>+ 1\<close> and \<open>.days\<close> of a
  difference is the difference. The \<open>created_at\<close> timestamps, which no function of the
  program reads back for a decision, are left out.
\<close>

type_synonym date = int

record order_row =
  o_id :: int
  o_client_name :: string
  o_cultivar :: string
  o_num_plants :: int
  o_plant_size :: string
  o_order_date :: date
  o_delivery_quantity :: "int option"
  o_is_recurring :: int
  o_completed :: int
  o_completion_date :: "date option"
  o_notes :: string

record batch_row =
  b_id :: int
  b_order_id :: "int option"
  b_batch_name :: string
  b_num_explants :: int
  b_explant_type :: string
  b_media_type :: string
  b_hormones :: "string option"
  b_additional_elements :: "string option"
  b_initiation_date :: date
  b_notes :: string
  b_pathogen_status :: "string option"

record infection_row =
  i_id :: int
  i_batch_id :: int
  i_num_infected :: int
  i_infection_type :: string
  i_identification_date :: date
  i_notes :: string
  i_num_lost :: "int option"
  i_num_affected :: "int option"

record transfer_row =
  t_id :: int
  t_batch_id :: int
  t_parent_transfer_id :: "int option"
  t_transfer_date :: date
  t_explants_in :: int
  t_explants_out :: int
  t_new_media :: string
  t_hormones :: "string option"
  t_additional_elements :: "string option"
  t_multiplication_occurred :: bool
  t_notes :: string

record rooting_row =
  r_id :: int
  r_transfer_id :: "int option"
  r_batch_id :: int
  r_num_placed :: int
  r_placement_date :: date
  r_num_rooted :: "int option"
  r_rooting_date :: "date option"
  r_notes :: string

record delivery_row =
  d_id :: int
  d_order_id :: "int option"
  d_batch_id :: "int option"
  d_num_delivered :: int
  d_delivery_date :: date
  d_delivery_method :: "string option"
  d_notes :: string

record label_row =
  l_id :: int
  l_order_id :: int
  l_label_uuid :: string
  l_client_name :: string
  l_cultivar :: string
  l_order_date :: date
  l_initiation_date :: date
  l_stages :: string
  l_pathogen_status :: "string option"
  l_num_labels :: int
  l_notes :: string

text \<open>
  The database file. The \<open>seq_\<close> fields are the \<open>AUTOINCREMENT\<close> counters of
  \<open>sqlite_sequence\<close>: the largest rowid a table has ever handed out.
\<close>

record db =
  orders :: "order_row list"
  explant_batches :: "batch_row list"
  infection_records :: "infection_row list"
  transfer_records :: "transfer_row list"
  rooting_records :: "rooting_row list"
  delivery_records :: "delivery_row list"
  labels :: "label_row list"
  seq_orders :: int
  seq_batches :: int
  seq_infections :: int
  seq_transfers :: int
  seq_rootings :: int
  seq_deliveries :: int

definition empty_db :: db where
  "empty_db = \<lparr>orders = [], explant_batches = [], infection_records = [],
     transfer_records = [], rooting_records = [], delivery_records = [], labels = [],
     seq_orders = 0, seq_batches = 0, seq_infections = 0, seq_transfers = 0,
     seq_rootings = 0, seq_deliveries = 0\<rparr>"

text \<open>
  What a page can end in besides success: a Python exception that aborts the script run
  (\<open>IndexError\<close> from \<open>.iloc[0]\<close> on an empty frame, \<open>KeyError\<close> from a dictionary,
  \<open>NameError\<close> from a variable no statement has bound yet, \<open>StreamlitAPIException\<close>
  from a widget whose default is out of range), a widget that cannot hold the submitted
  value, or a validation message shown with \<open>st.error\<close> / \<open>st.warning\<close> /
  \<open>st.info\<close>, after which nothing is written.
\<close>

datatype error =
  IndexError | KeyError | NameError | StreamlitAPIException | WidgetBounds | Rejected string

subsection \<open>SQL and widget primitives\<close>

text \<open>\<open>COALESCE(a, b)\<close>: the first argument that is not \<open>NULL\<close>.\<close>

fun coalesce :: "'a option \<Rightarrow> 'a option \<Rightarrow> 'a option" where
  "coalesce (Some a) _ = Some a"
| "coalesce None b = b"

text \<open>\<open>SUM(x)\<close> skips \<open>NULL\<close>s and is \<open>NULL\<close> when no row contributes a value.\<close>

fun sql_sum :: "int option list \<Rightarrow> int option" where
  "sql_sum [] = None"
| "sql_sum (None # xs) = sql_sum xs"
| "sql_sum (Some v # xs) = (case sql_sum xs of None \<Rightarrow> Some v | Some t \<Rightarrow> Some (v + t))"

text \<open>\<open>COALESCE(SUM(x), 0)\<close>, the shape of every total the program asks SQLite for.\<close>

definition sum_or_zero :: "int option list \<Rightarrow> int" where
  "sum_or_zero xs = (case coalesce (sql_sum xs) (Some 0) of Some t \<Rightarrow> t | None \<Rightarrow> 0)"

text \<open>
  \<open>st.number_input(min_value, max_value, value)\<close>: rendering raises
  \<open>StreamlitAPIException\<close> when the default \<open>value\<close> lies outside the bounds; otherwise
  the widget only ever yields a number inside them (\<open>max_value = None\<close> is no upper
  bound). A submission outside the bounds cannot happen; the model makes it fail with
  \<open>WidgetBounds\<close>. \<open>st.selectbox\<close> likewise only yields one of its options.
\<close>

definition in_bounds :: "int \<Rightarrow> int option \<Rightarrow> int \<Rightarrow> bool" where
  "in_bounds min_value max_value v =
     (min_value \<le> v \<and> (case max_value of None \<Rightarrow> True | Some m \<Rightarrow> v \<le> m))"

definition number_input :: "int \<Rightarrow> int option \<Rightarrow> int \<Rightarrow> int \<Rightarrow> error + int" where
  "number_input min_value max_value val v =
     (if \<not> in_bounds min_value max_value val then Inl StreamlitAPIException
      else if \<not> in_bounds min_value max_value v then Inl WidgetBounds
      else Inr v)"

definition selectbox :: "'a list \<Rightarrow> 'a \<Rightarrow> error + 'a" where
  "selectbox options v = (if v \<in> set options then Inr v else Inl WidgetBounds)"

text \<open>\<open>x or None\<close> on a text input: the empty string becomes \<open>NULL\<close>.\<close>

definition or_none :: "string \<Rightarrow> string option" where
  "or_none x = (if x = [] then None else Some x)"

text \<open>Python truthiness of an optional integer argument (\<open>if batch_id:\<close>).\<close>

fun truthy :: "int option \<Rightarrow> bool" where
  "truthy None = False"
| "truthy (Some n) = (n \<noteq> 0)"

text \<open>\<open>df[...].iloc[0]\<close>: the first row, \<open>IndexError\<close> on an empty frame.\<close>

fun iloc0 :: "'a list \<Rightarrow> error + 'a" where
  "iloc0 [] = Inl IndexError"
| "iloc0 (x # _) = Inr x"

text \<open>\<open>ORDER BY col DESC\<close>, stable on the rowid order for equal keys.\<close>

definition order_by_desc :: "('a \<Rightarrow> date) \<Rightarrow> 'a list \<Rightarrow> 'a list" where
  "order_by_desc col rows = sort_key (\<lambda>r. - col r) rows"

section \<open>Database helpers\<close>

definition get_orders :: "db \<Rightarrow> order_row list" where
  "get_orders s = order_by_desc o_order_date (orders s)"

definition get_explant_batches :: "db \<Rightarrow> batch_row list" where
  "get_explant_batches s = order_by_desc b_initiation_date (explant_batches s)"

definition add_infection_record ::
  "db \<Rightarrow> int \<Rightarrow> int \<Rightarrow> int \<Rightarrow> string \<Rightarrow> date \<Rightarrow> string \<Rightarrow> int \<times> db" where
  "add_infection_record s batch_id num_lost num_affected infection_type identification_date notes =
     (let num_infected = num_lost + num_affected;
          record_id = seq_infections s + 1
      in (record_id,
          s\<lparr>infection_records := infection_records s @
               [\<lparr>i_id = record_id, i_batch_id = batch_id, i_num_infected = num_infected,
                 i_infection_type = infection_type,
                 i_identification_date = identification_date, i_notes = notes,
                 i_num_lost = Some num_lost, i_num_affected = Some num_affected\<rparr>],
            seq_infections := record_id\<rparr>))"

text \<open>
  \<open>SELECT COALESCE(SUM(COALESCE(num_lost, num_infected)), 0) FROM infection_records
  WHERE batch_id = ?\<close>
\<close>

definition lost_of :: "infection_row \<Rightarrow> int option" where
  "lost_of r = coalesce (i_num_lost r) (Some (i_num_infected r))"

definition get_total_infections_for_batch :: "db \<Rightarrow> int \<Rightarrow> int" where
  "get_total_infections_for_batch s batch_id =
     sum_or_zero (map lost_of (filter (\<lambda>r. i_batch_id r = batch_id) (infection_records s)))"


definition add_order ::
  "db \<Rightarrow> string \<Rightarrow> string \<Rightarrow> int \<Rightarrow> string \<Rightarrow> date \<Rightarrow> int option \<Rightarrow> bool \<Rightarrow> string \<Rightarrow> int \<times> db" where
  "add_order s client_name cultivar num_plants plant_size order_date delivery_quantity
       is_recurring notes =
     (let order_id = seq_orders s + 1
      in (order_id,
          s\<lparr>orders := orders s @
               [\<lparr>o_id = order_id, o_client_name = client_name, o_cultivar = cultivar,
                 o_num_plants = num_plants, o_plant_size = plant_size,
                 o_order_date = order_date, o_delivery_quantity = delivery_quantity,
                 o_is_recurring = (if is_recurring then 1 else 0), o_completed = 0,
                 o_completion_date = None, o_notes = notes\<rparr>],
            seq_orders := order_id\<rparr>))"

text \<open>\<open>DELETE FROM orders WHERE id = ?\<close>: the one statement of \<open>delete_order\<close>.\<close>

definition delete_order :: "db \<Rightarrow> int \<Rightarrow> db" where
  "delete_order s order_id = s\<lparr>orders := filter (\<lambda>r. o_id r \<noteq> order_id) (orders s)\<rparr>"

text \<open>\<open>UPDATE orders SET completed = 1, completion_date = ? WHERE id = ?\<close>\<close>

definition mark_order_completed :: "db \<Rightarrow> int \<Rightarrow> date \<Rightarrow> db" where
  "mark_order_completed s order_id completion_date =
     s\<lparr>orders := map (\<lambda>r. if o_id r = order_id
                             then r\<lparr>o_completed := 1, o_completion_date := Some completion_date\<rparr>
                             else r) (orders s)\<rparr>"

text \<open>\<open>UPDATE orders SET completed = 0, completion_date = NULL WHERE id = ?\<close>\<close>

definition mark_order_incomplete :: "db \<Rightarrow> int \<Rightarrow> db" where
  "mark_order_incomplete s order_id =
     s\<lparr>orders := map (\<lambda>r. if o_id r = order_id
                             then r\<lparr>o_completed := 0, o_completion_date := None\<rparr>
                             else r) (orders s)\<rparr>"

text \<open>
  The two filters every page uses on \<open>get_orders()\<close>:
  \<open>orders[orders.get('completed', 0) == 1]\<close> (Archive page, "Completed Orders") and
  \<open>orders[orders.get('completed', 0) == 0]\<close> (orders offered for completion, for labels,
  and the active orders of the statistics).
\<close>

definition completed_orders :: "db \<Rightarrow> order_row list" where
  "completed_orders s = filter (\<lambda>r. o_completed r = 1) (get_orders s)"

definition active_orders :: "db \<Rightarrow> order_row list" where
  "active_orders s = filter (\<lambda>r. o_completed r = 0) (get_orders s)"

definition add_explant_batch ::
  "db \<Rightarrow> int option \<Rightarrow> string \<Rightarrow> int \<Rightarrow> string \<Rightarrow> string \<Rightarrow> string option \<Rightarrow> string option \<Rightarrow>
   date \<Rightarrow> string \<Rightarrow> string option \<Rightarrow> int \<times> db" where
  "add_explant_batch s order_id batch_name num_explants explant_type media_type hormones
       additional_elements initiation_date notes pathogen_status =
     (let batch_id = seq_batches s + 1
      in (batch_id,
          s\<lparr>explant_batches := explant_batches s @
               [\<lparr>b_id = batch_id, b_order_id = order_id, b_batch_name = batch_name,
                 b_num_explants = num_explants, b_explant_type = explant_type,
                 b_media_type = media_type, b_hormones = hormones,
                 b_additional_elements = additional_elements,
                 b_initiation_date = initiation_date, b_notes = notes,
                 b_pathogen_status = pathogen_status\<rparr>],
            seq_batches := batch_id\<rparr>))"

text \<open>
  \<open>UPDATE explant_batches SET order_id = ?, batch_name = ?, num_explants = ?, ... WHERE
  id = ?\<close>: every column but the key is overwritten, with no look at any other table.
\<close>

definition update_explant_batch ::
  "db \<Rightarrow> int \<Rightarrow> int option \<Rightarrow> string \<Rightarrow> int \<Rightarrow> string \<Rightarrow> string \<Rightarrow> string option \<Rightarrow>
   string option \<Rightarrow> date \<Rightarrow> string \<Rightarrow> string option \<Rightarrow> db" where
  "update_explant_batch s batch_id order_id batch_name num_explants explant_type media_type
       hormones additional_elements initiation_date notes pathogen_status =
     s\<lparr>explant_batches := map (\<lambda>r. if b_id r = batch_id
          then r\<lparr>b_order_id := order_id, b_batch_name := batch_name,
                 b_num_explants := num_explants, b_explant_type := explant_type,
                 b_media_type := media_type, b_hormones := hormones,
                 b_additional_elements := additional_elements,
                 b_initiation_date := initiation_date, b_notes := notes,
                 b_pathogen_status := pathogen_status\<rparr>
          else r) (explant_batches s)\<rparr>"

text \<open>
  \<open>get_batch_summary\<close>: the batch by \<open>fetchone\<close>, \<open>COALESCE(SUM(num_infected), 0)\<close> over its
  infection records, \<open>COALESCE(SUM(explants_out), 0)\<close> over its transfers, and
  \<open>'healthy': batch[3] - total_infected\<close> (column 3 is \<open>num_explants\<close>).
\<close>

record batch_summary =
  bs_batch :: batch_row
  bs_total_infected :: int
  bs_total_transferred :: int
  bs_healthy :: int

definition get_batch_summary :: "db \<Rightarrow> int \<Rightarrow> batch_summary option" where
  "get_batch_summary s batch_id =
     (case filter (\<lambda>r. b_id r = batch_id) (explant_batches s) of
        [] \<Rightarrow> None
      | batch # _ \<Rightarrow>
          (let total_infected =
                 sum_or_zero (map (\<lambda>r. Some (i_num_infected r))
                   (filter (\<lambda>r. i_batch_id r = batch_id) (infection_records s)));
               total_transferred =
                 sum_or_zero (map (\<lambda>r. Some (t_explants_out r))
                   (filter (\<lambda>r. t_batch_id r = batch_id) (transfer_records s)))
           in Some \<lparr>bs_batch = batch, bs_total_infected = total_infected,
                     bs_total_transferred = total_transferred,
                     bs_healthy = b_num_explants batch - total_infected\<rparr>))"

section \<open>Contamination Tracking page\<close>

text \<open>
  "Remaining healthy" as the Record Contamination form computes it:
  \<open>total_lost = get_total_infections_for_batch(batch_id)\<close>,
  \<open>batch_info = batches[batches['id'] == batch_id].iloc[0]\<close>,
  \<open>remaining = batch_info['num_explants'] - total_lost\<close>.
\<close>

definition remaining_healthy :: "db \<Rightarrow> int \<Rightarrow> error + int" where
  "remaining_healthy s batch_id =
     (let total_lost = get_total_infections_for_batch s batch_id
      in case iloc0 (filter (\<lambda>b. b_id b = batch_id) (get_explant_batches s)) of
           Inl e \<Rightarrow> Inl e
         | Inr batch_info \<Rightarrow> Inr (b_num_explants batch_info - total_lost))"

text \<open>The body of \<open>if submitted:\<close> of \<open>infection_form\<close>.\<close>

definition infection_form_submit ::
  "db \<Rightarrow> int \<Rightarrow> int \<Rightarrow> int \<Rightarrow> int \<Rightarrow> string \<Rightarrow> date \<Rightarrow> string \<Rightarrow> error + int \<times> db" where
  "infection_form_submit s batch_id remaining num_lost num_affected infection_type
       identification_date notes =
     (if num_lost = 0 \<and> num_affected = 0
        then Inl (Rejected ''Please enter at least one explant lost or affected'')
      else if remaining \<ge> num_lost
        then Inr (add_infection_record s batch_id num_lost num_affected infection_type
                    identification_date notes)
      else Inl (Rejected ''Cannot lose more explants than remaining healthy count''))"

text \<open>
  The Record Contamination tab: the batch is one of the existing batches, the two number
  inputs carry their bounds (\<open>max_value=remaining if remaining > 0 else 0\<close> for the lost
  count), the type is one of the two options.
\<close>

definition infection_form ::
  "db \<Rightarrow> int \<Rightarrow> int \<Rightarrow> int \<Rightarrow> string \<Rightarrow> date \<Rightarrow> string \<Rightarrow> error + int \<times> db" where
  "infection_form s batch_id num_lost num_affected infection_type identification_date notes =
     (if get_explant_batches s = []
        then Inl (Rejected ''No batches available. Please initiate a batch first.'')
      else case remaining_healthy s batch_id of
        Inl e \<Rightarrow> Inl e
      | Inr remaining \<Rightarrow>
      (case number_input 0 (Some (if remaining > 0 then remaining else 0)) 0 num_lost of
        Inl e \<Rightarrow> Inl e
      | Inr num_lost' \<Rightarrow>
      (case number_input 0 None 0 num_affected of
        Inl e \<Rightarrow> Inl e
      | Inr num_affected' \<Rightarrow>
      (case selectbox [''Bacterial'', ''Fungal''] infection_type of
        Inl e \<Rightarrow> Inl e
      | Inr infection_type' \<Rightarrow>
          infection_form_submit s batch_id remaining num_lost' num_affected' infection_type'
            identification_date notes))))"

text \<open>\<open>get_infection_records\<close>: by batch when \<open>batch_id\<close> is truthy, all otherwise, each
  \<open>ORDER BY identification_date DESC\<close>.\<close>

definition get_infection_records :: "db \<Rightarrow> int option \<Rightarrow> infection_row list" where
  "get_infection_records s batch_id =
     (if truthy batch_id
        then order_by_desc i_identification_date
               (filter (\<lambda>r. Some (i_batch_id r) = batch_id) (infection_records s))
      else order_by_desc i_identification_date (infection_records s))"

text \<open>
  \<open>UPDATE infection_records SET batch_id = ?, num_infected = ?, num_lost = ?, num_affected
  = ?, infection_type = ?, identification_date = ?, notes = ? WHERE id = ?\<close>, with
  \<open>num_infected = num_lost + num_affected\<close>.
\<close>

definition update_infection_record ::
  "db \<Rightarrow> int \<Rightarrow> int \<Rightarrow> int \<Rightarrow> int \<Rightarrow> string \<Rightarrow> date \<Rightarrow> string \<Rightarrow> db" where
  "update_infection_record s record_id batch_id num_lost num_affected infection_type
       identification_date notes =
     (let num_infected = num_lost + num_affected
      in s\<lparr>infection_records := map (\<lambda>r. if i_id r = record_id
           then r\<lparr>i_batch_id := batch_id, i_num_infected := num_infected,
                  i_num_lost := Some num_lost, i_num_affected := Some num_affected,
                  i_infection_type := infection_type,
                  i_identification_date := identification_date, i_notes := notes\<rparr>
           else r) (infection_records s)\<rparr>)"

text \<open>
  \<open>current_lost\<close> of the Edit Contamination Record form: the record's \<open>num_lost\<close>, or its
  \<open>num_infected\<close> when \<open>num_lost\<close> is null.
\<close>

definition current_lost_of :: "infection_row \<Rightarrow> int" where
  "current_lost_of r = (case i_num_lost r of Some n \<Rightarrow> n | None \<Rightarrow> i_num_infected r)"

text \<open>The body of \<open>if edit_submitted:\<close> of \<open>edit_infection_form\<close>.\<close>

definition edit_infection_form_submit ::
  "db \<Rightarrow> int \<Rightarrow> int \<Rightarrow> int \<Rightarrow> int \<Rightarrow> int \<Rightarrow> string \<Rightarrow> date \<Rightarrow> string \<Rightarrow> error + db" where
  "edit_infection_form_submit s record_id edit_batch_id remaining edit_num_lost edit_num_affected
       edit_infection_type edit_identification_date edit_notes =
     (if edit_num_lost = 0 \<and> edit_num_affected = 0
        then Inl (Rejected ''Please enter at least one explant lost or affected'')
      else if edit_num_lost \<le> remaining
        then Inr (update_infection_record s record_id edit_batch_id edit_num_lost
                    edit_num_affected edit_infection_type edit_identification_date edit_notes)
      else Inl (Rejected ''Cannot lose more explants than remaining healthy count''))"

text \<open>
  The Edit Contamination Record form. The record is one of the existing records, the
  batch one of the existing batches (with none, \<open>list(batch_options.keys())[0]\<close> is an
  \<open>IndexError\<close>). The remaining count is computed for the batch chosen in the form:
  \<open>total_lost = get_total_infections_for_batch(edit_batch_id)\<close>, then, under the comment
  "Add back the current record's lost count for validation",
  \<open>remaining = batch_info['num_explants'] - total_lost + current_lost\<close>, whichever batch
  the record is stored on.
\<close>

definition edit_infection_form ::
  "db \<Rightarrow> int \<Rightarrow> int \<Rightarrow> int \<Rightarrow> int \<Rightarrow> string \<Rightarrow> date \<Rightarrow> string \<Rightarrow> error + db" where
  "edit_infection_form s record_id edit_batch_id edit_num_lost edit_num_affected
       edit_infection_type edit_identification_date edit_notes =
     (let infections = get_infection_records s None;
          batches = get_explant_batches s
      in if infections = [] then Inl (Rejected ''No infection records found'')
      else
      (case selectbox (map i_id infections) record_id of
        Inl e \<Rightarrow> Inl e
      | Inr record_id1 \<Rightarrow>
      (case iloc0 (filter (\<lambda>r. i_id r = record_id1) infections) of
        Inl e \<Rightarrow> Inl e
      | Inr selected_infection_data \<Rightarrow>
      (if batches = [] then Inl IndexError
       else
      (case selectbox (map b_id batches) edit_batch_id of
        Inl e \<Rightarrow> Inl e
      | Inr edit_batch_id1 \<Rightarrow>
      (case iloc0 (filter (\<lambda>b. b_id b = edit_batch_id1) batches) of
        Inl e \<Rightarrow> Inl e
      | Inr batch_info \<Rightarrow>
      (let total_lost = get_total_infections_for_batch s edit_batch_id1;
           current_lost = current_lost_of selected_infection_data;
           remaining = b_num_explants batch_info - total_lost + current_lost;
           current_num_affected =
             (case i_num_affected selected_infection_data of Some n \<Rightarrow> n | None \<Rightarrow> 0)
       in
      (case number_input 0 (Some (if remaining > 0 then remaining else 0)) current_lost
              edit_num_lost of
        Inl e \<Rightarrow> Inl e
      | Inr num_lost1 \<Rightarrow>
      (case number_input 0 None current_num_affected edit_num_affected of
        Inl e \<Rightarrow> Inl e
      | Inr num_affected1 \<Rightarrow>
      (case selectbox [''Bacterial'', ''Fungal''] edit_infection_type of
        Inl e \<Rightarrow> Inl e
      | Inr infection_type1 \<Rightarrow>
          edit_infection_form_submit s record_id1 edit_batch_id1 remaining num_lost1
            num_affected1 infection_type1 edit_identification_date edit_notes))))))))))"

section \<open>Explant Initiation page: Edit Batch\<close>

definition explant_type_options :: "string list" where
  "explant_type_options = [''Node'', ''Microshoot'', ''Meristem'', ''Other'']"

definition media_type_options :: "string list" where
  "media_type_options = [''50% EECN'', ''100% EECN'', ''50% MS'', ''100% MS'', ''50% DKW'',
     ''100% DKW'', ''Rooting Media'']"

definition pathogen_options :: "string list" where
  "pathogen_options = [''Hop Latent Viroid'', ''Arabis Mosaic Virus'', ''Beet Curly Top Virus'',
     ''Lettuce Chlorosis Virus'', ''Cannabis Cryptic Virus'', ''Tomato Ringspot Virus'',
     ''Tobacco Mosaic Virus'', ''Tomato Mosaic Virus'', ''Botrytis cineria'',
     ''Pythium myriotylum'', ''Fusarium oxysporum'', ''Fusarium solani'',
     ''Golovinomyces ambrosiae'']"

text \<open>
  The Edit Batch form. The order is \<open>None\<close> or one of the existing orders, the number of
  explants has \<open>min_value=1\<close> and the stored count as default, the pathogen is \<open>None\<close>
  or one of the listed ones. On submit the only test is
  \<open>if edit_batch_name and edit_media_type:\<close>.
\<close>

definition edit_batch_form ::
  "db \<Rightarrow> int \<Rightarrow> int option \<Rightarrow> string \<Rightarrow> int \<Rightarrow> string \<Rightarrow> string \<Rightarrow> date \<Rightarrow> string option \<Rightarrow>
   string \<Rightarrow> string \<Rightarrow> string \<Rightarrow> error + db" where
  "edit_batch_form s batch_id edit_order_id edit_batch_name edit_num_explants edit_explant_type
       edit_media_type edit_initiation_date edit_pathogen_status edit_hormones
       edit_additional_elements edit_notes =
     (if get_explant_batches s = [] then Inl (Rejected ''No batches found'')
      else case iloc0 (filter (\<lambda>b. b_id b = batch_id) (get_explant_batches s)) of
        Inl e \<Rightarrow> Inl e
      | Inr selected_batch_data \<Rightarrow>
      (case selectbox (None # map (\<lambda>r. Some (o_id r)) (get_orders s)) edit_order_id of
        Inl e \<Rightarrow> Inl e
      | Inr order_id' \<Rightarrow>
      (case number_input 1 None (b_num_explants selected_batch_data) edit_num_explants of
        Inl e \<Rightarrow> Inl e
      | Inr num_explants' \<Rightarrow>
      (case selectbox explant_type_options edit_explant_type of
        Inl e \<Rightarrow> Inl e
      | Inr explant_type' \<Rightarrow>
      (case selectbox media_type_options edit_media_type of
        Inl e \<Rightarrow> Inl e
      | Inr media_type' \<Rightarrow>
      (case selectbox (None # map Some pathogen_options) edit_pathogen_status of
        Inl e \<Rightarrow> Inl e
      | Inr pathogen_status' \<Rightarrow>
          if edit_batch_name \<noteq> [] \<and> media_type' \<noteq> []
            then Inr (update_explant_batch s batch_id order_id' edit_batch_name num_explants'
                        explant_type' media_type' (or_none edit_hormones)
                        (or_none edit_additional_elements) edit_initiation_date edit_notes
                        pathogen_status')
          else Inl (Rejected ''Please fill in all required fields'')))))))"

section \<open>Transfers, rooting and deliveries: database helpers\<close>

definition add_transfer_record ::
  "db \<Rightarrow> int \<Rightarrow> int option \<Rightarrow> date \<Rightarrow> int \<Rightarrow> int \<Rightarrow> string \<Rightarrow> string option \<Rightarrow> string option \<Rightarrow>
   bool \<Rightarrow> string \<Rightarrow> int \<times> db" where
  "add_transfer_record s batch_id parent_transfer_id transfer_date explants_in explants_out
       new_media hormones additional_elements multiplication_occurred notes =
     (let transfer_id = seq_transfers s + 1
      in (transfer_id,
          s\<lparr>transfer_records := transfer_records s @
               [\<lparr>t_id = transfer_id, t_batch_id = batch_id,
                 t_parent_transfer_id = parent_transfer_id, t_transfer_date = transfer_date,
                 t_explants_in = explants_in, t_explants_out = explants_out,
                 t_new_media = new_media, t_hormones = hormones,
                 t_additional_elements = additional_elements,
                 t_multiplication_occurred = multiplication_occurred, t_notes = notes\<rparr>],
            seq_transfers := transfer_id\<rparr>))"

definition get_transfer_records :: "db \<Rightarrow> int option \<Rightarrow> transfer_row list" where
  "get_transfer_records s batch_id =
     (if truthy batch_id
        then order_by_desc t_transfer_date
               (filter (\<lambda>r. Some (t_batch_id r) = batch_id) (transfer_records s))
      else order_by_desc t_transfer_date (transfer_records s))"

definition add_rooting_record ::
  "db \<Rightarrow> int option \<Rightarrow> int \<Rightarrow> int \<Rightarrow> date \<Rightarrow> int option \<Rightarrow> date option \<Rightarrow> string \<Rightarrow> int \<times> db" where
  "add_rooting_record s transfer_id batch_id num_placed placement_date num_rooted rooting_date
       notes =
     (let record_id = seq_rootings s + 1
      in (record_id,
          s\<lparr>rooting_records := rooting_records s @
               [\<lparr>r_id = record_id, r_transfer_id = transfer_id, r_batch_id = batch_id,
                 r_num_placed = num_placed, r_placement_date = placement_date,
                 r_num_rooted = num_rooted, r_rooting_date = rooting_date,
                 r_notes = notes\<rparr>],
            seq_rootings := record_id\<rparr>))"

text \<open>\<open>UPDATE rooting_records SET num_rooted = ?, rooting_date = ? WHERE id = ?\<close>\<close>

definition update_rooting_record :: "db \<Rightarrow> int \<Rightarrow> int \<Rightarrow> date option \<Rightarrow> db" where
  "update_rooting_record s record_id num_rooted rooting_date =
     s\<lparr>rooting_records := map (\<lambda>r. if r_id r = record_id
          then r\<lparr>r_num_rooted := Some num_rooted, r_rooting_date := rooting_date\<rparr>
          else r) (rooting_records s)\<rparr>"

definition update_rooting_record_full ::
  "db \<Rightarrow> int \<Rightarrow> int option \<Rightarrow> int \<Rightarrow> int \<Rightarrow> date \<Rightarrow> int option \<Rightarrow> date option \<Rightarrow> string \<Rightarrow> db" where
  "update_rooting_record_full s record_id transfer_id batch_id num_placed placement_date
       num_rooted rooting_date notes =
     s\<lparr>rooting_records := map (\<lambda>r. if r_id r = record_id
          then r\<lparr>r_transfer_id := transfer_id, r_batch_id := batch_id,
                 r_num_placed := num_placed, r_placement_date := placement_date,
                 r_num_rooted := num_rooted, r_rooting_date := rooting_date,
                 r_notes := notes\<rparr>
          else r) (rooting_records s)\<rparr>"

text \<open>\<open>if batch_id: ... elif transfer_id: ... else: ...\<close>, each \<open>ORDER BY placement_date DESC\<close>.\<close>

definition get_rooting_records :: "db \<Rightarrow> int option \<Rightarrow> int option \<Rightarrow> rooting_row list" where
  "get_rooting_records s batch_id transfer_id =
     (if truthy batch_id
        then order_by_desc r_placement_date
               (filter (\<lambda>r. Some (r_batch_id r) = batch_id) (rooting_records s))
      else if truthy transfer_id
        then order_by_desc r_placement_date
               (filter (\<lambda>r. r_transfer_id r \<noteq> None \<and> r_transfer_id r = transfer_id)
                  (rooting_records s))
      else order_by_desc r_placement_date (rooting_records s))"

definition add_delivery_record ::
  "db \<Rightarrow> int option \<Rightarrow> int option \<Rightarrow> int \<Rightarrow> date \<Rightarrow> string option \<Rightarrow> string \<Rightarrow> int \<times> db" where
  "add_delivery_record s order_id batch_id num_delivered delivery_date delivery_method notes =
     (let record_id = seq_deliveries s + 1
      in (record_id,
          s\<lparr>delivery_records := delivery_records s @
               [\<lparr>d_id = record_id, d_order_id = order_id, d_batch_id = batch_id,
                 d_num_delivered = num_delivered, d_delivery_date = delivery_date,
                 d_delivery_method = delivery_method, d_notes = notes\<rparr>],
            seq_deliveries := record_id\<rparr>))"

definition get_delivery_records :: "db \<Rightarrow> int option \<Rightarrow> int option \<Rightarrow> delivery_row list" where
  "get_delivery_records s order_id batch_id =
     (if truthy order_id
        then order_by_desc d_delivery_date
               (filter (\<lambda>r. d_order_id r \<noteq> None \<and> d_order_id r = order_id)
                  (delivery_records s))
      else if truthy batch_id
        then order_by_desc d_delivery_date
               (filter (\<lambda>r. d_batch_id r \<noteq> None \<and> d_batch_id r = batch_id)
                  (delivery_records s))
      else order_by_desc d_delivery_date (delivery_records s))"

section \<open>Rooting Tracking page\<close>

text \<open>
  The transfers the page works on:
  \<open>transfers[transfers['new_media'] == 'Rooting Media'] if not transfers.empty else
  pd.DataFrame()\<close>.
\<close>

definition rooting_transfers :: "db \<Rightarrow> transfer_row list" where
  "rooting_transfers s = filter (\<lambda>t. t_new_media t = ''Rooting Media'') (get_transfer_records s None)"

text \<open>
  \<open>existing_rooting = get_rooting_records(transfer_id=transfer_id)\<close> and
  \<open>already_placed = existing_rooting['num_placed'].sum()\<close>: the cumulative number placed
  for a transfer, as the Record Rooting tab counts it.
\<close>

definition already_placed :: "db \<Rightarrow> int \<Rightarrow> int" where
  "already_placed s transfer_id =
     sum_list (map r_num_placed (get_rooting_records s None (Some transfer_id)))"

text \<open>The body of \<open>if submitted:\<close> of \<open>rooting_form\<close>.\<close>

definition rooting_form_submit ::
  "db \<Rightarrow> int \<Rightarrow> int \<Rightarrow> int \<Rightarrow> int \<Rightarrow> date \<Rightarrow> int \<Rightarrow> date option \<Rightarrow> string \<Rightarrow> error + int \<times> db" where
  "rooting_form_submit s transfer_id batch_id remaining num_placed placement_date num_rooted
       rooting_date notes =
     (if num_placed \<le> remaining
        then Inr (add_rooting_record s (Some transfer_id) batch_id num_placed placement_date
                    (if num_rooted > 0 then Some num_rooted else None) rooting_date notes)
      else Inl (Rejected ''Cannot place more explants than available''))"

text \<open>
  The Record Rooting tab. A transfer is offered only when its batch still exists; with no
  option at all \<open>transfer_options[selected_transfer]\<close> is a \<open>KeyError\<close>. The number
  placed has \<open>min_value=1\<close> and \<open>max_value=remaining if remaining > 0 else 1\<close>; the
  number rooted has \<open>min_value=0\<close> and no \<open>max_value\<close>.
\<close>

definition rooting_form ::
  "db \<Rightarrow> int \<Rightarrow> int \<Rightarrow> date \<Rightarrow> int \<Rightarrow> date option \<Rightarrow> string \<Rightarrow> error + int \<times> db" where
  "rooting_form s transfer_id num_placed placement_date num_rooted rooting_date notes =
     (if rooting_transfers s = []
        then Inl (Rejected (''No transfers to rooting media found. '' @
                            ''Please create a transfer with 'Rooting Media' first.''))
      else
        let batches = get_explant_batches s;
            transfer_options =
              map t_id (filter (\<lambda>t. filter (\<lambda>b. b_id b = t_batch_id t) batches \<noteq> [])
                          (rooting_transfers s))
        in if transfer_options = [] then Inl KeyError
      else case selectbox transfer_options transfer_id of
        Inl e \<Rightarrow> Inl e
      | Inr transfer_id' \<Rightarrow>
      (case iloc0 (filter (\<lambda>t. t_id t = transfer_id') (rooting_transfers s)) of
        Inl e \<Rightarrow> Inl e
      | Inr selected_transfer_data \<Rightarrow>
        let existing_rooting = get_rooting_records s None (Some transfer_id');
            remaining = (if existing_rooting \<noteq> []
                           then t_explants_out selected_transfer_data - already_placed s transfer_id'
                         else t_explants_out selected_transfer_data);
            default_placed = (if remaining > 0 then remaining else 1)
        in
      (case number_input 1 (Some (if remaining > 0 then remaining else 1)) default_placed
              num_placed of
        Inl e \<Rightarrow> Inl e
      | Inr num_placed' \<Rightarrow>
      (case number_input 0 None 0 num_rooted of
        Inl e \<Rightarrow> Inl e
      | Inr num_rooted' \<Rightarrow>
          rooting_form_submit s transfer_id' (t_batch_id selected_transfer_data) remaining
            num_placed' placement_date num_rooted' rooting_date notes))))"

text \<open>
  The Update Rooting Status form of the View tab: the record is one of those listed for
  the batch filter, the number rooted has \<open>min_value=0, max_value=max_rooted\<close> with
  \<open>max_rooted = selected_record_data['num_placed']\<close>, and the submit writes without a
  further test.
\<close>

definition update_rooting_form ::
  "db \<Rightarrow> int option \<Rightarrow> int \<Rightarrow> int \<Rightarrow> date \<Rightarrow> error + db" where
  "update_rooting_form s filter_batch_id record_id new_num_rooted new_rooting_date =
     (if get_explant_batches s = [] then Inl (Rejected ''No batches available'')
      else
      (case selectbox (None # map (\<lambda>b. Some (b_id b)) (get_explant_batches s))
              filter_batch_id of
        Inl e \<Rightarrow> Inl e
      | Inr filter_batch_id' \<Rightarrow>
      (let records = get_rooting_records s filter_batch_id' None
       in if records = [] then Inl (Rejected ''No rooting records found'')
       else
      (case selectbox (map r_id records) record_id of
        Inl e \<Rightarrow> Inl e
      | Inr record_id' \<Rightarrow>
      (case iloc0 (filter (\<lambda>r. r_id r = record_id') records) of
        Inl e \<Rightarrow> Inl e
      | Inr selected_record_data \<Rightarrow>
      (let max_rooted = r_num_placed selected_record_data
       in
      (case number_input 0 (Some max_rooted)
              (case r_num_rooted selected_record_data of Some n \<Rightarrow> n | None \<Rightarrow> 0)
              new_num_rooted of
        Inl e \<Rightarrow> Inl e
      | Inr new_num_rooted' \<Rightarrow>
          Inr (update_rooting_record s record_id' new_num_rooted'
                 (Some new_rooting_date)))))))))"

text \<open>
  The Edit Rooting Record form. The number placed has \<open>min_value=1\<close> and no
  \<open>max_value\<close>; the number rooted has \<open>max_value=edit_num_placed\<close>; the submit writes
  without a further test, and without reading the transfer's \<open>explants_out\<close>.
\<close>

definition edit_rooting_form ::
  "db \<Rightarrow> int \<Rightarrow> int option \<Rightarrow> int \<Rightarrow> int \<Rightarrow> date \<Rightarrow> int \<Rightarrow> date option \<Rightarrow> string \<Rightarrow> error + db" where
  "edit_rooting_form s record_id edit_transfer_id edit_batch_id edit_num_placed
       edit_placement_date edit_num_rooted edit_rooting_date edit_notes =
     (let records = get_rooting_records s None None;
          batches = get_explant_batches s
      in if records = [] then Inl (Rejected ''No rooting records found'')
      else case selectbox (map r_id records) record_id of
        Inl e \<Rightarrow> Inl e
      | Inr record_id' \<Rightarrow>
      (case iloc0 (filter (\<lambda>r. r_id r = record_id') records) of
        Inl e \<Rightarrow> Inl e
      | Inr selected_record_data \<Rightarrow>
      (case (if rooting_transfers s = [] then Inr None
             else selectbox (map (\<lambda>t. Some (t_id t)) (rooting_transfers s)) edit_transfer_id) of
        Inl e \<Rightarrow> Inl e
      | Inr transfer_id' \<Rightarrow>
      (if batches = [] then Inl IndexError
       else
      (case selectbox (map b_id batches) edit_batch_id of
        Inl e \<Rightarrow> Inl e
      | Inr batch_id' \<Rightarrow>
      (case number_input 1 None (r_num_placed selected_record_data) edit_num_placed of
        Inl e \<Rightarrow> Inl e
      | Inr num_placed' \<Rightarrow>
      (case number_input 0 (Some num_placed')
              (case r_num_rooted selected_record_data of Some n \<Rightarrow> n | None \<Rightarrow> 0)
              edit_num_rooted of
        Inl e \<Rightarrow> Inl e
      | Inr num_rooted' \<Rightarrow>
          Inr (update_rooting_record_full s record_id' transfer_id' batch_id' num_placed'
                 edit_placement_date (if num_rooted' > 0 then Some num_rooted' else None)
                 edit_rooting_date edit_notes))))))))"

section \<open>Timeline page: the Gantt chart\<close>

text \<open>
  A row of \<open>gantt_data\<close>. The \<open>Task\<close> text is kept structured: the constructor is the
  fixed part of the label and its arguments are the values the f-string formats
  (\<open>Transfer #id: media (in, out, Mult: Yes/No)\<close>, \<open>Rooting Placement: n placed\<close>,
  \<open>Rooting Complete: n rooted\<close>, \<open>Delivery: n delivered\<close>).
\<close>

datatype task =
  Order_Received | Passive_Time | Explant_Initiation
| Transfer int string int int bool
| Rooting_Placement int | Rooting_Complete int
| Delivery int | Order_Completed

record gantt_row =
  g_cultivar :: string
  g_task :: task
  g_start :: date
  g_finish :: date
  g_duration :: int

text \<open>A one-day marker: \<open>Start = d, Finish = d + 1 day, Duration = 1\<close>.\<close>

definition marker :: "string \<Rightarrow> task \<Rightarrow> date \<Rightarrow> gantt_row" where
  "marker cultivar task d =
     \<lparr>g_cultivar = cultivar, g_task = task, g_start = d, g_finish = d + 1, g_duration = 1\<rparr>"

text \<open>
  The gap test every walk repeats: \<open>if d > prev_date + pd.Timedelta(days=1):\<close> append
  \<open>Passive Time\<close> from \<open>prev_date\<close> to \<open>d\<close> with \<open>Duration = (d - prev_date).days\<close>.
\<close>

definition gap_before :: "string \<Rightarrow> date \<Rightarrow> date \<Rightarrow> gantt_row list" where
  "gap_before cultivar prev_date d =
     (if d > prev_date + 1
        then [\<lparr>g_cultivar = cultivar, g_task = Passive_Time, g_start = prev_date,
               g_finish = d, g_duration = d - prev_date\<rparr>]
      else [])"

text \<open>\<open>for idx, transfer in sorted_transfers.iterrows():\<close> with the running \<open>prev_date\<close>.\<close>

fun walk_transfers ::
  "string \<Rightarrow> transfer_row list \<Rightarrow> gantt_row list \<times> date \<Rightarrow> gantt_row list \<times> date" where
  "walk_transfers cultivar [] st = st"
| "walk_transfers cultivar (transfer # rest) (gantt_data, prev_date) =
     (let transfer_date = t_transfer_date transfer
      in walk_transfers cultivar rest
           (gantt_data @ gap_before cultivar prev_date transfer_date @
              [marker cultivar
                 (Transfer (t_id transfer) (t_new_media transfer) (t_explants_in transfer)
                    (t_explants_out transfer) (t_multiplication_occurred transfer))
                 transfer_date],
            transfer_date + 1))"

text \<open>
  \<open>for idx, rooting in sorted_rooting.iterrows():\<close> the placement marker, then the
  completion marker when \<open>rooting_date\<close> is set (\<open>num_rooted\<close> read as 0 when \<open>NULL\<close>).
\<close>

fun walk_rooting ::
  "string \<Rightarrow> rooting_row list \<Rightarrow> gantt_row list \<times> date \<Rightarrow> gantt_row list \<times> date" where
  "walk_rooting cultivar [] st = st"
| "walk_rooting cultivar (rooting # rest) (gantt_data, prev_date) =
     (let placement_date = r_placement_date rooting;
          g1 = gantt_data @ gap_before cultivar prev_date placement_date @
                 [marker cultivar (Rooting_Placement (r_num_placed rooting)) placement_date];
          p1 = placement_date + 1
      in case r_rooting_date rooting of
           None \<Rightarrow> walk_rooting cultivar rest (g1, p1)
         | Some rooting_date \<Rightarrow>
             (let num_rooted = (case r_num_rooted rooting of Some n \<Rightarrow> n | None \<Rightarrow> 0)
              in walk_rooting cultivar rest
                   (g1 @ gap_before cultivar p1 rooting_date @
                      [marker cultivar (Rooting_Complete num_rooted) rooting_date],
                    rooting_date + 1)))"

fun walk_deliveries ::
  "string \<Rightarrow> delivery_row list \<Rightarrow> gantt_row list \<times> date \<Rightarrow> gantt_row list \<times> date" where
  "walk_deliveries cultivar [] st = st"
| "walk_deliveries cultivar (delivery # rest) (gantt_data, prev_date) =
     (let delivery_date = d_delivery_date delivery
      in walk_deliveries cultivar rest
           (gantt_data @ gap_before cultivar prev_date delivery_date @
              [marker cultivar (Delivery (d_num_delivered delivery)) delivery_date],
            delivery_date + 1))"

text \<open>
  \<open>order_completion\<close>: the completion date of the batch's order when the order exists,
  has \<open>completed == 1\<close> and a completion date; \<open>None\<close> otherwise.
\<close>

definition order_completion_of :: "db \<Rightarrow> batch_row \<Rightarrow> date option" where
  "order_completion_of s batch =
     (case b_order_id batch of
        None \<Rightarrow> None
      | Some order_id \<Rightarrow>
          (case filter (\<lambda>r. o_id r = order_id) (get_orders s) of
             [] \<Rightarrow> None
           | order_row # _ \<Rightarrow>
               if o_completed order_row = 1 then o_completion_date order_row else None))"

text \<open>
  \<open>batches.merge(orders, left_on='order_id', right_on='id', how='left')\<close> followed by
  \<open>[batches_with_orders['cultivar'].notna()]\<close>: a batch stays, once per matching order,
  exactly when its order reference resolves (\<open>cultivar\<close> is \<open>NOT NULL\<close> in \<open>orders\<close>).
\<close>

definition batches_with_orders :: "db \<Rightarrow> (batch_row \<times> order_row) list" where
  "batches_with_orders s =
     concat (map (\<lambda>b. map (\<lambda>r. (b, r))
                         (filter (\<lambda>r. Some (o_id r) = b_order_id b) (get_orders s)))
               (get_explant_batches s))"

text \<open>
  The body of \<open>for _, batch in filtered_batches.iterrows():\<close> up to the order completion
  marker. The state carried from one batch to the next is \<open>gantt_data\<close> and the script
  variable \<open>prev_date\<close>, which only the \<open>if not batch_transfers.empty:\<close> block binds:
  a later statement that reads it unbound raises \<open>NameError\<close>. \<open>sort_values\<close> is
  modelled as the stable \<open>sort_key\<close>.
\<close>

definition gantt_batch ::
  "db \<Rightarrow> gantt_row list \<times> date option \<Rightarrow> batch_row \<times> order_row \<Rightarrow>
   error + gantt_row list \<times> date option" where
  "gantt_batch s st row =
     (let gantt_data = fst st; prev_date = snd st;
          batch = fst row; ord = snd row;
          cultivar = o_cultivar ord;
          batch_id = b_id batch;
          order_date = o_order_date ord;
          init_date = b_initiation_date batch;
          batch_transfers = filter (\<lambda>t. t_batch_id t = batch_id) (get_transfer_records s None);
          batch_rooting = filter (\<lambda>r. r_batch_id r = batch_id) (get_rooting_records s None None);
          batch_deliveries =
            filter (\<lambda>d. d_batch_id d = Some batch_id) (get_delivery_records s None None);
          order_completion = order_completion_of s batch;
          g1 = gantt_data @ [marker cultivar Order_Received order_date];
          g2 = g1 @ (if init_date > order_date + 1
                       then [\<lparr>g_cultivar = cultivar, g_task = Passive_Time,
                              g_start = order_date + 1, g_finish = init_date,
                              g_duration = init_date - (order_date + 1)\<rparr>]
                     else []);
          init_end = init_date + 1;
          g3 = g2 @ [\<lparr>g_cultivar = cultivar, g_task = Explant_Initiation,
                      g_start = init_date, g_finish = init_end, g_duration = 1\<rparr>];
          st4 = (case sort_key t_transfer_date batch_transfers of
                   [] \<Rightarrow> (g3, prev_date)
                 | first_transfer # rest \<Rightarrow>
                     (let first_transfer_date = t_transfer_date first_transfer;
                          g = g3 @ (if first_transfer_date > init_end
                                      then [\<lparr>g_cultivar = cultivar, g_task = Passive_Time,
                                             g_start = init_end, g_finish = first_transfer_date,
                                             g_duration = first_transfer_date - init_end\<rparr>]
                                    else []);
                          w = walk_transfers cultivar (first_transfer # rest) (g, init_end);
                          w' = (if batch_rooting \<noteq> []
                                  then walk_rooting cultivar
                                         (sort_key r_placement_date batch_rooting) w
                                else w)
                      in (fst w', Some (snd w'))))
      in (case (if batch_deliveries \<noteq> []
                  then (case snd st4 of
                          None \<Rightarrow> Inl NameError
                        | Some p \<Rightarrow>
                            (let w = walk_deliveries cultivar
                                       (sort_key d_delivery_date batch_deliveries) (fst st4, p)
                             in Inr (fst w, Some (snd w))))
                else Inr st4) of
            Inl e \<Rightarrow> Inl e
          | Inr st5 \<Rightarrow>
              (case order_completion of
                 None \<Rightarrow> Inr st5
               | Some completion \<Rightarrow>
                   (case snd st5 of
                      None \<Rightarrow> Inl NameError
                    | Some p \<Rightarrow>
                        Inr (fst st5 @ gap_before cultivar p completion @
                               [marker cultivar Order_Completed completion],
                             Some p)))))"

fun gantt_loop ::
  "db \<Rightarrow> (batch_row \<times> order_row) list \<Rightarrow> gantt_row list \<times> date option \<Rightarrow>
   error + gantt_row list \<times> date option" where
  "gantt_loop s [] st = Inr st"
| "gantt_loop s (row # rows) st =
     (case gantt_batch s st row of Inl e \<Rightarrow> Inl e | Inr st' \<Rightarrow> gantt_loop s rows st')"

text \<open>
  The \<open>else:\<close> that follows the loop body stands at the indentation of the \<open>for\<close>: it is
  the loop's own \<open>else\<close> clause, which Python runs once, after the last iteration of a
  loop that has no \<open>break\<close>, with \<open>init_date\<close> and \<open>cultivar\<close> as the last batch left them
  (unbound, a \<open>NameError\<close>, had the loop no iteration).
\<close>

definition gantt_else ::
  "(batch_row \<times> order_row) list \<Rightarrow> date \<Rightarrow> gantt_row list \<Rightarrow> error + gantt_row list" where
  "gantt_else rows today gantt_data =
     (case rev rows of
        [] \<Rightarrow> Inl NameError
      | (batch, ord) # _ \<Rightarrow>
          (let init_date = b_initiation_date batch; cultivar = o_cultivar ord
           in if today > init_date + 1
                then Inr (gantt_data @
                       [\<lparr>g_cultivar = cultivar, g_task = Passive_Time,
                         g_start = init_date + 1, g_finish = today,
                         g_duration = today - init_date - 1\<rparr>])
              else Inr gantt_data))"

text \<open>
  The Gantt tab up to \<open>gantt_data\<close>: the cultivars are chosen among those of the merged
  rows (an empty choice means all of them), \<open>today\<close> is \<open>date.today()\<close>.
\<close>

definition gantt_chart :: "db \<Rightarrow> string list \<Rightarrow> date \<Rightarrow> error + gantt_row list" where
  "gantt_chart s selected today =
     (if get_explant_batches s = [] \<or> get_orders s = []
        then Inl (Rejected ''No data available for Gantt chart'')
      else if batches_with_orders s = []
        then Inl (Rejected ''No batches linked to orders with cultivar information'')
      else
        (let all_cultivars = remdups (map (\<lambda>(b, r). o_cultivar r) (batches_with_orders s))
         in if \<not> list_all (\<lambda>c. c \<in> set all_cultivars) selected then Inl WidgetBounds
            else
              (let selected_cultivars = (if selected = [] then all_cultivars else selected);
                   filtered_batches =
                     filter (\<lambda>(b, r). o_cultivar r \<in> set selected_cultivars)
                       (batches_with_orders s)
               in case gantt_loop s filtered_batches ([], None) of
                    Inl e \<Rightarrow> Inl e
                  | Inr (gantt_data, prev_date) \<Rightarrow>
                      gantt_else filtered_batches today gantt_data)))"

section \<open>Read paths of a batch's order reference\<close>

text \<open>
  Batch Timeline tab: \<open>order_info = None\<close>; when the batch has an order reference,
  \<open>order_info = orders[orders['id'] == batch_info['order_id']].iloc[0] if not
  orders.empty else None\<close>.
\<close>

definition batch_timeline_order_info :: "db \<Rightarrow> int \<Rightarrow> error + order_row option" where
  "batch_timeline_order_info s batch_id =
     (if get_explant_batches s = [] then Inl (Rejected ''No batches available'')
      else
        (case iloc0 (filter (\<lambda>b. b_id b = batch_id) (get_explant_batches s)) of
           Inl e \<Rightarrow> Inl e
         | Inr batch_info \<Rightarrow>
             (case b_order_id batch_info of
                None \<Rightarrow> Inr None
              | Some order_id \<Rightarrow>
                  if get_orders s \<noteq> []
                    then (case iloc0 (filter (\<lambda>r. o_id r = order_id) (get_orders s)) of
                            Inl e \<Rightarrow> Inl e
                          | Inr order_info \<Rightarrow> Inr (Some order_info))
                  else Inr None)))"

text \<open>
  Edit Batch form: the order preselected in "Link to Order", \<open>None\<close> standing for the
  option \<open>"None"\<close>. The current order is looked up and tested with
  \<open>if not current_order.empty:\<close> before \<open>.iloc[0]\<close> is taken.
\<close>

definition edit_batch_default_order :: "db \<Rightarrow> batch_row \<Rightarrow> int option" where
  "edit_batch_default_order s selected_batch_data =
     (if get_orders s \<noteq> []
        then (case b_order_id selected_batch_data of
                None \<Rightarrow> None
              | Some current_order_id \<Rightarrow>
                  (case filter (\<lambda>r. o_id r = current_order_id) (get_orders s) of
                     [] \<Rightarrow> None
                   | current_order # _ \<Rightarrow> Some (o_id current_order)))
      else None)"

section \<open>Reference definitions and example stores\<close>

text \<open>
  The specification's \<open>total_lost(batch)\<close>, in its own words: the sum, over the batch's
  contamination records, of \<open>num_lost\<close>, or of the legacy \<open>num_infected\<close> where
  \<open>num_lost\<close> is null.
\<close>

definition spec_total_lost :: "db \<Rightarrow> int \<Rightarrow> int" where
  "spec_total_lost s batch_id =
     sum_list (map (\<lambda>r. case i_num_lost r of Some n \<Rightarrow> n | None \<Rightarrow> i_num_infected r)
                 (filter (\<lambda>r. i_batch_id r = batch_id) (infection_records s)))"

text \<open>
  A row whose \<open>num_lost\<close> and \<open>num_affected\<close> are null (both columns are nullable) and
  which carries only the legacy aggregate \<open>num_infected = 12\<close>.
\<close>

definition legacy_record :: infection_row where
  "legacy_record =
     \<lparr>i_id = 1, i_batch_id = 1, i_num_infected = 12, i_infection_type = ''Fungal'',
      i_identification_date = 1001, i_notes = [], i_num_lost = None, i_num_affected = None\<rparr>"

text \<open>One batch of 100 explants, not linked to an order, initiated on day 1000.\<close>

definition example_batch_100 :: db where
  "example_batch_100 =
     snd (add_explant_batch empty_db None ''B1'' 100 ''Node'' ''50% MS'' None None 1000 [] None)"

text \<open>The same batch after a contamination record with 30 lost.\<close>

definition example_batch_100_lost_30 :: db where
  "example_batch_100_lost_30 =
     snd (add_infection_record example_batch_100 1 30 0 ''Fungal'' 1001 [])"

text \<open>One open order, placed on day 1000.\<close>

definition example_open_order :: db where
  "example_open_order = snd (add_order empty_db ''Client'' ''Cv'' 10 ''Small'' 1000 None False [])"

text \<open>The batch of 100 after a contamination record with 70 lost.\<close>

definition example_batch_100_lost_70 :: db where
  "example_batch_100_lost_70 =
     snd (add_infection_record example_batch_100 1 70 0 ''Fungal'' 1001 [])"

text \<open>The batch of 100 after a contamination record with 10 lost and 5 affected.\<close>

definition example_lost_10_affected_5 :: db where
  "example_lost_10_affected_5 =
     snd (add_infection_record example_batch_100 1 10 5 ''Fungal'' 1001 [])"

text \<open>The batch of 100 with one transfer to rooting media, 100 in and 50 out.\<close>

definition example_rooting_transfer_50 :: db where
  "example_rooting_transfer_50 =
     snd (add_transfer_record example_batch_100 1 None 1005 100 50 ''Rooting Media'' None None
            False [])"

text \<open>The same after a rooting record that places 30 of the 50.\<close>

definition example_placed_30 :: db where
  "example_placed_30 =
     snd (add_rooting_record example_rooting_transfer_50 (Some 1) 1 30 1005 None None [])"

text \<open>
  An order received on day \<open>D\<close>, its batch initiated the same day, and the batch's first
  transfer on day \<open>D + 5\<close>.
\<close>

definition example_first_transfer :: "date \<Rightarrow> db" where
  "example_first_transfer D =
     snd (add_transfer_record
            (snd (add_explant_batch
                    (snd (add_order empty_db ''Client'' ''Cv'' 10 ''Small'' D None False []))
                    (Some 1) ''B1'' 100 ''Node'' ''50% MS'' None None D [] None))
            1 None (D + 5) 100 50 ''50% MS'' None None False [])"

text \<open>
  Two orders for two cultivars, a batch for each: batch 1 (cultivar \<open>CvA\<close>, initiated on
  day 1000) has a transfer on day 1001, batch 2 (cultivar \<open>CvB\<close>, initiated on day 1001)
  has no transfer.
\<close>

definition example_two_batches :: db where
  "example_two_batches =
     snd (add_transfer_record
       (snd (add_explant_batch
         (snd (add_explant_batch
           (snd (add_order
             (snd (add_order empty_db ''Client'' ''CvA'' 10 ''Small'' 1000 None False []))
             ''Client'' ''CvB'' 10 ''Small'' 1001 None False []))
           (Some 1) ''B1'' 100 ''Node'' ''50% MS'' None None 1000 [] None))
         (Some 2) ''B2'' 100 ''Node'' ''50% MS'' None None 1001 [] None))
       1 None 1001 100 50 ''50% MS'' None None False [])"

text \<open>Two orders and one batch, linked to order 1.\<close>

definition example_two_orders_one_batch :: db where
  "example_two_orders_one_batch =
     snd (add_explant_batch
       (snd (add_order
         (snd (add_order empty_db ''Client'' ''CvA'' 10 ''Small'' 1000 None False []))
         ''Client'' ''CvB'' 10 ''Small'' 1001 None False []))
       (Some 1) ''B1'' 100 ''Node'' ''50% MS'' None None 1000 [] None)"

text \<open>
  Batch 1 with 100 explants and batch 2 with 50, and one contamination record, entered
  on batch 1 with 60 lost.
\<close>

definition example_batches_100_and_50 :: db where
  "example_batches_100_and_50 =
     snd (add_infection_record
            (snd (add_explant_batch example_batch_100 None ''B2'' 50 ''Node'' ''50% MS'' None None
                    1000 [] None))
            1 60 0 ''Fungal'' 1001 [])"

section \<open>Properties\<close>

subsection \<open>Totals\<close>

lemma sql_sum_map_Some: "sql_sum (map Some xs) = (if xs = [] then None else Some (sum_list xs))"
  by (induction xs) auto

lemma sum_or_zero_map_Some: "sum_or_zero (map Some xs) = sum_list xs"
  by (simp add: sum_or_zero_def sql_sum_map_Some)

lemma lost_of_Some:
  "lost_of r = Some (case i_num_lost r of Some n \<Rightarrow> n | None \<Rightarrow> i_num_infected r)"
  by (cases "i_num_lost r") (simp_all add: lost_of_def)

lemma sum_or_zero_lost_of:
  "sum_or_zero (map lost_of rs) =
     sum_list (map (\<lambda>r. case i_num_lost r of Some n \<Rightarrow> n | None \<Rightarrow> i_num_infected r) rs)"
proof -
  have "map lost_of rs =
      map Some (map (\<lambda>r. case i_num_lost r of Some n \<Rightarrow> n | None \<Rightarrow> i_num_infected r) rs)"
    by (simp add: lost_of_Some)
  then show ?thesis
    by (simp only: sum_or_zero_map_Some)
qed

lemma total_is_spec_total: "get_total_infections_for_batch s b = spec_total_lost s b"
  by (simp add: get_total_infections_for_batch_def spec_total_lost_def sum_or_zero_lost_of)

text \<open>
  \<^bold>\<open>C3.\<close> \<open>get_total_infections_for_batch\<close> is the specification's \<open>total_lost\<close>: the sum
  over the batch's contamination records of \<open>num_lost\<close>, with the legacy \<open>num_infected\<close>
  standing in for a null \<open>num_lost\<close>. It is 0 for a batch with no records, and a record
  with \<open>num_lost\<close> null and \<open>num_infected = 12\<close> adds exactly 12 to the batch's total.
\<close>

theorem total_lost_legacy_fallback:
  "get_total_infections_for_batch s b = spec_total_lost s b
   \<and> (filter (\<lambda>r. i_batch_id r = b) (infection_records s) = []
        \<longrightarrow> get_total_infections_for_batch s b = 0)
   \<and> (i_batch_id r = b \<and> i_num_lost r = None \<and> i_num_infected r = 12
        \<longrightarrow> get_total_infections_for_batch
              (s\<lparr>infection_records := infection_records s @ [r]\<rparr>) b
            = get_total_infections_for_batch s b + 12)"
  by (simp add: total_is_spec_total spec_total_lost_def)

theorem total_lost_legacy_fallback_witness:
  "get_total_infections_for_batch empty_db 1 = 0
   \<and> get_total_infections_for_batch (empty_db\<lparr>infection_records := [legacy_record]\<rparr>) 1 = 12"
  using total_lost_legacy_fallback [of empty_db 1 legacy_record]
  by (simp add: empty_db_def legacy_record_def)

subsection \<open>Recording contamination\<close>

lemma batches_after_add_infection:
  "get_explant_batches (snd (add_infection_record s b nl na ty d n)) = get_explant_batches s"
  by (simp add: add_infection_record_def get_explant_batches_def Let_def)

lemma total_after_add_infection:
  "get_total_infections_for_batch (snd (add_infection_record s b nl na ty d n)) b
     = get_total_infections_for_batch s b + nl"
  by (simp add: total_is_spec_total spec_total_lost_def add_infection_record_def Let_def)

lemma remaining_after_add_infection:
  assumes "remaining_healthy s b = Inr remaining"
  shows "remaining_healthy (snd (add_infection_record s b nl na ty d n)) b = Inr (remaining - nl)"
  using assms
  by (auto simp: remaining_healthy_def batches_after_add_infection total_after_add_infection
      Let_def split: sum.splits)

text \<open>
  The figure the form calls "Remaining healthy" is the initial explant count of the
  selected batch minus the specification's \<open>total_lost\<close>.
\<close>

lemma remaining_healthy_is_initial_minus_lost:
  assumes "remaining_healthy s b = Inr remaining"
  shows "\<exists>batch. batch \<in> set (explant_batches s) \<and> b_id batch = b
           \<and> remaining = b_num_explants batch - spec_total_lost s b"
proof -
  from assms obtain batch rest
    where f: "filter (\<lambda>x. b_id x = b) (get_explant_batches s) = batch # rest"
      and r: "remaining = b_num_explants batch - get_total_infections_for_batch s b"
    by (cases "filter (\<lambda>x. b_id x = b) (get_explant_batches s)")
       (auto simp: remaining_healthy_def Let_def)
  from f have "batch \<in> set (filter (\<lambda>x. b_id x = b) (get_explant_batches s))" by simp
  then have "batch \<in> set (explant_batches s) \<and> b_id batch = b"
    by (simp add: get_explant_batches_def order_by_desc_def)
  with r show ?thesis by (auto simp: total_is_spec_total)
qed

text \<open>What an accepted submission of \<open>infection_form\<close> went through.\<close>

lemma infection_form_accepted:
  assumes "infection_form s b nl na ty d n = Inr res"
  shows "\<exists>remaining. remaining_healthy s b = Inr remaining \<and> nl \<le> remaining
           \<and> res = add_infection_record s b nl na ty d n"
  using assms
  by (auto simp: infection_form_def infection_form_submit_def number_input_def selectbox_def
      split: if_splits sum.splits)

text \<open>The submit handler alone, whatever the widgets let through.\<close>

lemma infection_form_submit_rejects_excess:
  assumes "remaining < num_lost" and "\<not> (num_lost = 0 \<and> num_affected = 0)"
  shows "infection_form_submit s b remaining num_lost num_affected ty d n
           = Inl (Rejected ''Cannot lose more explants than remaining healthy count'')"
  using assms by (simp add: infection_form_submit_def)

text \<open>
  \<^bold>\<open>C1.\<close> For a batch whose remaining healthy count (initial explant count minus total
  lost so far) is \<open>remaining\<close>, the Record Contamination form rejects a record with
  \<open>num_lost = 0\<close> and \<open>num_affected = 0\<close>, rejects a record whose \<open>num_lost\<close> exceeds
  \<open>remaining\<close>, and every record it accepts leaves the batch with the remaining healthy
  count \<open>remaining - num_lost \<ge> 0\<close>. A record within the bounds that is not empty is
  accepted. With 100 explants and 30 lost, \<open>num_lost = 80\<close> is rejected and
  \<open>num_lost = 70\<close> is accepted and leaves 0 (the witness).
\<close>

theorem infection_form_keeps_healthy_nonnegative:
  assumes "remaining_healthy s batch_id = Inr remaining"
  shows "(num_lost = 0 \<and> num_affected = 0
            \<longrightarrow> isl (infection_form s batch_id num_lost num_affected ty d notes))
       \<and> (num_lost > remaining
            \<longrightarrow> isl (infection_form s batch_id num_lost num_affected ty d notes))
       \<and> (\<forall>rid s'. infection_form s batch_id num_lost num_affected ty d notes = Inr (rid, s')
            \<longrightarrow> remaining_healthy s' batch_id = Inr (remaining - num_lost)
                \<and> 0 \<le> remaining - num_lost)
       \<and> (0 \<le> num_lost \<and> num_lost \<le> remaining \<and> 0 \<le> num_affected
            \<and> \<not> (num_lost = 0 \<and> num_affected = 0) \<and> ty \<in> {''Bacterial'', ''Fungal''}
            \<longrightarrow> infection_form s batch_id num_lost num_affected ty d notes
                = Inr (add_infection_record s batch_id num_lost num_affected ty d notes))"
proof (intro conjI impI allI)
  assume "num_lost = 0 \<and> num_affected = 0"
  then show "isl (infection_form s batch_id num_lost num_affected ty d notes)"
    by (cases "infection_form s batch_id num_lost num_affected ty d notes")
       (auto dest!: infection_form_accepted simp: infection_form_def infection_form_submit_def
          number_input_def selectbox_def split: if_splits sum.splits)
next
  assume "remaining < num_lost"
  then show "isl (infection_form s batch_id num_lost num_affected ty d notes)"
    using assms
    by (cases "infection_form s batch_id num_lost num_affected ty d notes")
       (auto dest!: infection_form_accepted)
next
  fix rid s'
  assume acc: "infection_form s batch_id num_lost num_affected ty d notes = Inr (rid, s')"
  from infection_form_accepted [OF acc] assms
  have le: "num_lost \<le> remaining"
    and res: "(rid, s') = add_infection_record s batch_id num_lost num_affected ty d notes"
    by auto
  from res have "s' = snd (add_infection_record s batch_id num_lost num_affected ty d notes)"
    by (metis snd_conv)
  with remaining_after_add_infection [OF assms]
  show "remaining_healthy s' batch_id = Inr (remaining - num_lost)" by simp
  from le show "0 \<le> remaining - num_lost" by simp
next
  assume ok: "0 \<le> num_lost \<and> num_lost \<le> remaining \<and> 0 \<le> num_affected
            \<and> \<not> (num_lost = 0 \<and> num_affected = 0) \<and> ty \<in> {''Bacterial'', ''Fungal''}"
  from assms have "get_explant_batches s \<noteq> []"
    by (auto simp: remaining_healthy_def Let_def)
  with ok assms
  show "infection_form s batch_id num_lost num_affected ty d notes
                = Inr (add_infection_record s batch_id num_lost num_affected ty d notes)"
    by (auto simp: infection_form_def infection_form_submit_def number_input_def
        in_bounds_def selectbox_def)
qed

lemma example_remaining: "remaining_healthy example_batch_100_lost_30 1 = Inr 70"
  by (simp add: example_batch_100_lost_30_def example_batch_100_def remaining_healthy_def
      get_explant_batches_def order_by_desc_def add_infection_record_def
      add_explant_batch_def empty_db_def get_total_infections_for_batch_def sum_or_zero_def
      lost_of_def Let_def)

theorem infection_form_keeps_healthy_nonnegative_witness:
  "remaining_healthy example_batch_100_lost_30 1 = Inr 70
   \<and> isl (infection_form example_batch_100_lost_30 1 80 0 ''Fungal'' 1002 [])
   \<and> infection_form example_batch_100_lost_30 1 70 0 ''Fungal'' 1002 []
       = Inr (add_infection_record example_batch_100_lost_30 1 70 0 ''Fungal'' 1002 [])
   \<and> remaining_healthy
        (snd (add_infection_record example_batch_100_lost_30 1 70 0 ''Fungal'' 1002 [])) 1
       = Inr 0"
proof -
  note r = example_remaining
  have a80: "isl (infection_form example_batch_100_lost_30 1 80 0 ''Fungal'' 1002 [])"
    using infection_form_keeps_healthy_nonnegative [OF r, of 80 0 "''Fungal''" 1002 "[]"]
    by simp
  have a70: "infection_form example_batch_100_lost_30 1 70 0 ''Fungal'' 1002 []
       = Inr (add_infection_record example_batch_100_lost_30 1 70 0 ''Fungal'' 1002 [])"
    using infection_form_keeps_healthy_nonnegative [OF r, of 70 0 "''Fungal''" 1002 "[]"]
    by simp
  have "remaining_healthy
        (snd (add_infection_record example_batch_100_lost_30 1 70 0 ''Fungal'' 1002 [])) 1
       = Inr 0"
    using infection_form_keeps_healthy_nonnegative [OF r, of 70 0 "''Fungal''" 1002 "[]"] a70
    by (metis diff_self prod.collapse)
  with r a80 a70 show ?thesis by simp
qed

subsection \<open>Completing and un-completing an order\<close>

lemma set_completed_orders:
  "set (completed_orders s) = {r \<in> set (orders s). o_completed r = 1}"
  by (auto simp: completed_orders_def get_orders_def order_by_desc_def)

lemma set_active_orders:
  "set (active_orders s) = {r \<in> set (orders s). o_completed r = 0}"
  by (auto simp: active_orders_def get_orders_def order_by_desc_def)

lemma uncomplete_completed_row:
  "(if o_id (if o_id r = order_id then r\<lparr>o_completed := 1, o_completion_date := Some d\<rparr> else r) = order_id
    then (if o_id r = order_id then r\<lparr>o_completed := 1, o_completion_date := Some d\<rparr> else r)
           \<lparr>o_completed := 0, o_completion_date := None\<rparr>
    else (if o_id r = order_id then r\<lparr>o_completed := 1, o_completion_date := Some d\<rparr> else r))
   = (if o_id r = order_id then r\<lparr>o_completed := 0, o_completion_date := None\<rparr> else r)"
  by (cases "o_id r = order_id") simp_all

lemma complete_then_incomplete:
  "mark_order_incomplete (mark_order_completed s order_id d) order_id
     = s\<lparr>orders := map (\<lambda>r. if o_id r = order_id
                                then r\<lparr>o_completed := 0, o_completion_date := None\<rparr>
                                else r) (orders s)\<rparr>"
  by (simp add: mark_order_incomplete_def mark_order_completed_def o_def uncomplete_completed_row)

lemma open_row_unchanged:
  "o_completed x = 0 \<Longrightarrow> o_completion_date x = None \<Longrightarrow>
     x\<lparr>o_completed := 0, o_completion_date := None\<rparr> = x"
  by (cases x) simp

lemma map_open_rows:
  assumes "\<And>x. x \<in> set xs \<Longrightarrow> o_id x = order_id \<Longrightarrow> o_completed x = 0 \<and> o_completion_date x = None"
  shows "map (\<lambda>r. if o_id r = order_id
                                then r\<lparr>o_completed := 0, o_completion_date := None\<rparr>
                                else r) xs = xs"
proof -
  have "map (\<lambda>r. if o_id r = order_id
                                then r\<lparr>o_completed := 0, o_completion_date := None\<rparr>
                                else r) xs = map (\<lambda>r. r) xs"
  proof (rule map_cong [OF refl])
    fix x assume "x \<in> set xs"
    with assms show "(if o_id x = order_id
                                then x\<lparr>o_completed := 0, o_completion_date := None\<rparr>
                                else x) = x"
      using open_row_unchanged [of x] by (cases "o_id x = order_id") simp_all
  qed
  then show ?thesis by simp
qed


text \<open>
  \<^bold>\<open>C8.\<close> For every order of a store whose order ids are distinct (the primary key):
  completing it puts it in the completed-orders archive; un-completing it afterwards
  leaves the order with \<open>completed = 0\<close> and \<open>completion_date\<close> null and every other
  field, every other order and every other table as before, so that it is among the
  active orders and not in the archive; and if the order was open before (not completed,
  no completion date), the whole store is as it was before the two steps.
\<close>

theorem completing_then_uncompleting_restores:
  assumes key: "distinct (map o_id (orders s))"
    and row: "r \<in> set (orders s)"
  shows "(let s1 = mark_order_completed s (o_id r) d;
              s2 = mark_order_incomplete s1 (o_id r)
          in r\<lparr>o_completed := 1, o_completion_date := Some d\<rparr> \<in> set (completed_orders s1)
             \<and> s2 = s\<lparr>orders := map (\<lambda>x. if x = r
                                               then r\<lparr>o_completed := 0, o_completion_date := None\<rparr>
                                               else x) (orders s)\<rparr>
             \<and> r\<lparr>o_completed := 0, o_completion_date := None\<rparr> \<in> set (active_orders s2)
             \<and> r\<lparr>o_completed := 0, o_completion_date := None\<rparr> \<notin> set (completed_orders s2)
             \<and> (o_completed r = 0 \<and> o_completion_date r = None \<longrightarrow> s2 = s))"
proof -
  from key have inj: "inj_on o_id (set (orders s))"
    by (simp add: distinct_map)
  have same: "(o_id x = o_id r) = (x = r)" if "x \<in> set (orders s)" for x
    using inj row that by (auto dest: inj_onD)
  have m: "map (\<lambda>x. if o_id x = o_id r
                       then x\<lparr>o_completed := 0, o_completion_date := None\<rparr> else x) (orders s)
         = map (\<lambda>x. if x = r
                       then r\<lparr>o_completed := 0, o_completion_date := None\<rparr> else x) (orders s)"
  proof (rule map_cong [OF refl])
    fix x assume "x \<in> set (orders s)"
    from same [OF this]
    show "(if o_id x = o_id r then x\<lparr>o_completed := 0, o_completion_date := None\<rparr> else x)
        = (if x = r then r\<lparr>o_completed := 0, o_completion_date := None\<rparr> else x)"
      by (cases "x = r") simp_all
  qed
  have both: "mark_order_incomplete (mark_order_completed s (o_id r) d) (o_id r)
      = s\<lparr>orders := map (\<lambda>x. if x = r
                                then r\<lparr>o_completed := 0, o_completion_date := None\<rparr>
                                else x) (orders s)\<rparr>"
    by (simp only: complete_then_incomplete m)
  have "r\<lparr>o_completed := 1, o_completion_date := Some d\<rparr>
       \<in> (\<lambda>x. if o_id x = o_id r then x\<lparr>o_completed := 1, o_completion_date := Some d\<rparr> else x)
            ` set (orders s)"
    using row by (rule rev_image_eqI) simp
  then have "r\<lparr>o_completed := 1, o_completion_date := Some d\<rparr>
       \<in> set (orders (mark_order_completed s (o_id r) d))"
    by (simp only: mark_order_completed_def set_map) simp
  then have c1: "r\<lparr>o_completed := 1, o_completion_date := Some d\<rparr>
      \<in> set (completed_orders (mark_order_completed s (o_id r) d))"
    by (simp only: set_completed_orders) simp
  have "r\<lparr>o_completed := 0, o_completion_date := None\<rparr>
       \<in> (\<lambda>x. if x = r then r\<lparr>o_completed := 0, o_completion_date := None\<rparr> else x)
            ` set (orders s)"
    using row by (rule rev_image_eqI) simp
  then have "r\<lparr>o_completed := 0, o_completion_date := None\<rparr>
       \<in> set (orders (mark_order_incomplete (mark_order_completed s (o_id r) d) (o_id r)))"
    by (simp only: both set_map) simp
  then have a: "r\<lparr>o_completed := 0, o_completion_date := None\<rparr>
      \<in> set (active_orders (mark_order_incomplete (mark_order_completed s (o_id r) d) (o_id r)))"
    by (simp only: set_active_orders) simp
  have c: "r\<lparr>o_completed := 0, o_completion_date := None\<rparr>
      \<notin> set (completed_orders (mark_order_incomplete (mark_order_completed s (o_id r) d) (o_id r)))"
    by (simp only: set_completed_orders) simp
  have restored: "o_completed r = 0 \<and> o_completion_date r = None \<longrightarrow>
      mark_order_incomplete (mark_order_completed s (o_id r) d) (o_id r) = s"
  proof
    assume op: "o_completed r = 0 \<and> o_completion_date r = None"
    have "map (\<lambda>x. if o_id x = o_id r
                       then x\<lparr>o_completed := 0, o_completion_date := None\<rparr> else x) (orders s)
          = orders s"
    proof (rule map_open_rows)
      fix x assume "x \<in> set (orders s)" "o_id x = o_id r"
      with same have "x = r" by simp
      with op show "o_completed x = 0 \<and> o_completion_date x = None" by simp
    qed
    then show "mark_order_incomplete (mark_order_completed s (o_id r) d) (o_id r) = s"
      by (simp only: complete_then_incomplete) simp
  qed
  show ?thesis
    unfolding Let_def
    using c1 both a c restored by (intro conjI)
qed


lemma example_open_order_row:
  "orders example_open_order =
     [\<lparr>o_id = 1, o_client_name = ''Client'', o_cultivar = ''Cv'', o_num_plants = 10,
       o_plant_size = ''Small'', o_order_date = 1000, o_delivery_quantity = None,
       o_is_recurring = 0, o_completed = 0, o_completion_date = None, o_notes = []\<rparr>]"
  by (simp add: example_open_order_def add_order_def empty_db_def Let_def)

theorem completing_then_uncompleting_restores_witness:
  "mark_order_incomplete (mark_order_completed example_open_order 1 1030) 1 = example_open_order
   \<and> map o_id (completed_orders (mark_order_completed example_open_order 1 1030)) = [1]
   \<and> completed_orders (mark_order_incomplete (mark_order_completed example_open_order 1 1030) 1)
       = []
   \<and> map o_id (active_orders
         (mark_order_incomplete (mark_order_completed example_open_order 1 1030) 1)) = [1]"
proof -
  let ?r = "\<lparr>o_id = 1, o_client_name = ''Client'', o_cultivar = ''Cv'', o_num_plants = 10,
       o_plant_size = ''Small'', o_order_date = 1000, o_delivery_quantity = None,
       o_is_recurring = 0, o_completed = 0, o_completion_date = None, o_notes = []\<rparr>"
  have k: "distinct (map o_id (orders example_open_order))"
    by (simp add: example_open_order_row)
  have r: "?r \<in> set (orders example_open_order)"
    by (simp add: example_open_order_row)
  have restored:
    "mark_order_incomplete (mark_order_completed example_open_order 1 1030) 1 = example_open_order"
  proof -
    have i: "o_id ?r = 1" by simp
    have op: "o_completed ?r = 0 \<and> o_completion_date ?r = None" by simp
    note t = completing_then_uncompleting_restores [OF k r, of 1030, unfolded Let_def i]
    from t op show ?thesis by blast
  qed
  have c: "map o_id (completed_orders (mark_order_completed example_open_order 1 1030)) = [1]"
    by (simp add: completed_orders_def get_orders_def order_by_desc_def
        mark_order_completed_def example_open_order_row)
  have a: "map o_id (active_orders example_open_order) = [1]"
       "completed_orders example_open_order = []"
    by (simp_all add: active_orders_def completed_orders_def get_orders_def order_by_desc_def
        example_open_order_row)
  from restored c a show ?thesis by simp
qed

subsection \<open>Editing a batch\<close>

lemma edit_batch_form_accepted:
  assumes "edit_batch_form s bid oid name n et mt d ps h a notes = Inr s2"
  shows "s2 = update_explant_batch s bid oid name n et mt (or_none h) (or_none a) d notes ps"
  using assms
  by (auto simp: edit_batch_form_def selectbox_def number_input_def
      split: if_splits sum.splits)

lemma num_explants_after_update:
  "map b_num_explants
     (filter (\<lambda>b. b_id b = bid)
        (explant_batches (update_explant_batch s bid oid name n et mt h a d notes ps)))
   = map (\<lambda>b. n) (filter (\<lambda>b. b_id b = bid) (explant_batches s))"
proof -
  have "map b_num_explants (filter (\<lambda>b. b_id b = bid) (map f xs))
      = map (\<lambda>b. n) (filter (\<lambda>b. b_id b = bid) xs)"
    if "\<And>b. b_id (f b) = b_id b" "\<And>b. b_id b = bid \<Longrightarrow> b_num_explants (f b) = n"
    for f :: "batch_row \<Rightarrow> batch_row" and xs
    using that by (induction xs) auto
  then show ?thesis
    by (simp add: update_explant_batch_def)
qed

lemma edit_batch_form_ignores_infections:
  "edit_batch_form (s\<lparr>infection_records := irs\<rparr>) bid oid name n et mt d ps h a notes
     = (case edit_batch_form s bid oid name n et mt d ps h a notes of
          Inl e \<Rightarrow> Inl e
        | Inr s2 \<Rightarrow> Inr (s2\<lparr>infection_records := irs\<rparr>))"
  by (simp add: edit_batch_form_def get_explant_batches_def get_orders_def
      update_explant_batch_def split: sum.splits)

lemma example_lost_70_accepted:
  "infection_form example_batch_100 1 70 0 ''Fungal'' 1001 []
     = Inr (1, example_batch_100_lost_70)"
  by (simp add: infection_form_def infection_form_submit_def remaining_healthy_def
      example_batch_100_lost_70_def example_batch_100_def get_explant_batches_def
      order_by_desc_def add_infection_record_def add_explant_batch_def empty_db_def
      get_total_infections_for_batch_def sum_or_zero_def lost_of_def number_input_def
      in_bounds_def selectbox_def Let_def)

lemma example_lost_70_remaining: "remaining_healthy example_batch_100_lost_70 1 = Inr 30"
  by (simp add: remaining_healthy_def
      example_batch_100_lost_70_def example_batch_100_def get_explant_batches_def
      order_by_desc_def add_infection_record_def add_explant_batch_def empty_db_def
      get_total_infections_for_batch_def sum_or_zero_def lost_of_def Let_def)

lemma example_edit_accepted:
  "edit_batch_form example_batch_100_lost_70 1 None ''B1'' 50 ''Node'' ''50% MS'' 1000 None [] [] []
     = Inr (update_explant_batch example_batch_100_lost_70 1 None ''B1'' 50 ''Node'' ''50% MS''
              None None 1000 [] None)"
  by (simp add: edit_batch_form_def
      example_batch_100_lost_70_def example_batch_100_def get_explant_batches_def get_orders_def
      order_by_desc_def add_infection_record_def add_explant_batch_def empty_db_def
      number_input_def in_bounds_def selectbox_def or_none_def explant_type_options_def
      media_type_options_def Let_def)

lemma example_edit_remaining:
  "remaining_healthy
     (update_explant_batch example_batch_100_lost_70 1 None ''B1'' 50 ''Node'' ''50% MS''
              None None 1000 [] None) 1 = Inr (- 20)"
  by (simp add: remaining_healthy_def update_explant_batch_def
      example_batch_100_lost_70_def example_batch_100_def get_explant_batches_def
      order_by_desc_def add_infection_record_def add_explant_batch_def empty_db_def
      get_total_infections_for_batch_def sum_or_zero_def lost_of_def Let_def)

text \<open>
  The Edit Batch form never looks at the contamination records, and a reachable store
  shows the consequence.
\<close>

lemma edit_batch_form_never_reads_losses:
  "(edit_batch_form s bid oid name n et mt d ps h a notes = Inr s2 \<longrightarrow>
      s2 = update_explant_batch s bid oid name n et mt (or_none h) (or_none a) d notes ps
      \<and> infection_records s2 = infection_records s
      \<and> map b_num_explants (filter (\<lambda>b. b_id b = bid) (explant_batches s2))
          = map (\<lambda>b. n) (filter (\<lambda>b. b_id b = bid) (explant_batches s)))
   \<and> edit_batch_form (s\<lparr>infection_records := irs\<rparr>) bid oid name n et mt d ps h a notes
       = (case edit_batch_form s bid oid name n et mt d ps h a notes of
            Inl e \<Rightarrow> Inl e
          | Inr s3 \<Rightarrow> Inr (s3\<lparr>infection_records := irs\<rparr>))
   \<and> (\<exists>rid s1 s3.
         infection_form example_batch_100 1 70 0 ''Fungal'' 1001 [] = Inr (rid, s1)
         \<and> remaining_healthy s1 1 = Inr 30
         \<and> edit_batch_form s1 1 None ''B1'' 50 ''Node'' ''50% MS'' 1000 None [] [] [] = Inr s3
         \<and> remaining_healthy s3 1 = Inr (- 20))"
proof (intro conjI impI)
  assume acc: "edit_batch_form s bid oid name n et mt d ps h a notes = Inr s2"
  note u = edit_batch_form_accepted [OF acc]
  show "s2 = update_explant_batch s bid oid name n et mt (or_none h) (or_none a) d notes ps"
    by (rule u)
  show "infection_records s2 = infection_records s"
    by (simp add: u update_explant_batch_def)
  show "map b_num_explants (filter (\<lambda>b. b_id b = bid) (explant_batches s2))
          = map (\<lambda>b. n) (filter (\<lambda>b. b_id b = bid) (explant_batches s))"
    unfolding u by (rule num_explants_after_update)
next
  show "edit_batch_form (s\<lparr>infection_records := irs\<rparr>) bid oid name n et mt d ps h a notes
       = (case edit_batch_form s bid oid name n et mt d ps h a notes of
            Inl e \<Rightarrow> Inl e
          | Inr s3 \<Rightarrow> Inr (s3\<lparr>infection_records := irs\<rparr>))"
    by (rule edit_batch_form_ignores_infections)
next
  show "\<exists>rid s1 s3.
         infection_form example_batch_100 1 70 0 ''Fungal'' 1001 [] = Inr (rid, s1)
         \<and> remaining_healthy s1 1 = Inr 30
         \<and> edit_batch_form s1 1 None ''B1'' 50 ''Node'' ''50% MS'' 1000 None [] [] [] = Inr s3
         \<and> remaining_healthy s3 1 = Inr (- 20)"
    using example_lost_70_accepted example_lost_70_remaining example_edit_accepted
      example_edit_remaining by blast
qed

subsection \<open>Editing a contamination record\<close>

lemma batches_after_update_infection:
  "get_explant_batches (update_infection_record s rid b nl na ty d n) = get_explant_batches s"
  by (simp add: update_infection_record_def get_explant_batches_def Let_def)

lemma edit_infection_form_accepted:
  assumes "edit_infection_form s rid b nl na ty d n = Inr s2"
  shows "\<exists>sel batch_info.
           iloc0 (filter (\<lambda>r. i_id r = rid) (get_infection_records s None)) = Inr sel
         \<and> iloc0 (filter (\<lambda>x. b_id x = b) (get_explant_batches s)) = Inr batch_info
         \<and> nl \<le> b_num_explants batch_info - get_total_infections_for_batch s b
                   + current_lost_of sel
         \<and> s2 = update_infection_record s rid b nl na ty d n"
  using assms
  by (auto simp: edit_infection_form_def edit_infection_form_submit_def selectbox_def
      number_input_def Let_def split: if_splits sum.splits)

lemma iloc0_filter_mem:
  assumes "iloc0 (filter P xs) = Inr x"
  shows "x \<in> set xs \<and> P x"
proof -
  from assms have "x \<in> set (filter P xs)"
    by (cases "filter P xs") auto
  then show ?thesis by simp
qed

lemma spec_total_after_same_batch_update:
  assumes "distinct (map i_id xs)" and "r \<in> set xs" and "i_id r = rid" and "i_batch_id r = b"
  shows "sum_list (map current_lost_of
           (filter (\<lambda>x. i_batch_id x = b)
              (map (\<lambda>x. if i_id x = rid
                     then x\<lparr>i_batch_id := b, i_num_infected := ni, i_num_lost := Some nl,
                            i_num_affected := Some na, i_infection_type := ty,
                            i_identification_date := d, i_notes := n\<rparr>
                     else x) xs)))
       = sum_list (map current_lost_of (filter (\<lambda>x. i_batch_id x = b) xs))
           - current_lost_of r + nl"
  using assms
proof (induction xs)
  case Nil
  then show ?case by simp
next
  case (Cons x xs)
  show ?case
  proof (cases "x = r")
    case True
    from Cons.prems True have "rid \<notin> i_id ` set xs" by auto
    then have "\<forall>y \<in> set xs. i_id y \<noteq> rid" by (metis imageI)
    then have "map (\<lambda>x. if i_id x = rid
                     then x\<lparr>i_batch_id := b, i_num_infected := ni, i_num_lost := Some nl,
                            i_num_affected := Some na, i_infection_type := ty,
                            i_identification_date := d, i_notes := n\<rparr>
                     else x) xs = xs"
      by (induction xs) auto
    with True Cons.prems show ?thesis
      by (simp add: current_lost_of_def)
  next
    case False
    with Cons.prems have r: "r \<in> set xs" by auto
    with Cons.prems have "i_id x \<noteq> rid" by auto
    moreover from Cons.prems r
    have "sum_list (map current_lost_of
           (filter (\<lambda>x. i_batch_id x = b)
              (map (\<lambda>x. if i_id x = rid
                     then x\<lparr>i_batch_id := b, i_num_infected := ni, i_num_lost := Some nl,
                            i_num_affected := Some na, i_infection_type := ty,
                            i_identification_date := d, i_notes := n\<rparr>
                     else x) xs)))
       = sum_list (map current_lost_of (filter (\<lambda>x. i_batch_id x = b) xs))
           - current_lost_of r + nl"
      by (intro Cons.IH) auto
    ultimately show ?thesis by simp
  qed
qed

lemma total_after_same_batch_update:
  assumes "distinct (map i_id (infection_records s))" and "r \<in> set (infection_records s)"
    and "i_id r = rid" and "i_batch_id r = b"
  shows "get_total_infections_for_batch (update_infection_record s rid b nl na ty d n) b
       = get_total_infections_for_batch s b - current_lost_of r + nl"
  using spec_total_after_same_batch_update
    [OF assms, where ni = "nl + na" and nl = nl and na = na and ty = ty and d = d and n = n]
  by (simp add: total_is_spec_total spec_total_lost_def update_infection_record_def Let_def
      current_lost_of_def [abs_def])

lemma edit_infection_same_batch_keeps_nonnegative:
  assumes key: "distinct (map i_id (infection_records s))"
    and r: "r \<in> set (infection_records s)" "i_id r = rid" "i_batch_id r = b"
    and rem: "remaining_healthy s b = Inr remaining"
    and acc: "edit_infection_form s rid b nl na ty d n = Inr s2"
  shows "remaining_healthy s2 b = Inr (remaining + current_lost_of r - nl)
         \<and> 0 \<le> remaining + current_lost_of r - nl"
proof -
  from edit_infection_form_accepted [OF acc] obtain sel batch_info where
    sel: "iloc0 (filter (\<lambda>r. i_id r = rid) (get_infection_records s None)) = Inr sel"
    and bi: "iloc0 (filter (\<lambda>x. b_id x = b) (get_explant_batches s)) = Inr batch_info"
    and le: "nl \<le> b_num_explants batch_info - get_total_infections_for_batch s b
                   + current_lost_of sel"
    and s2: "s2 = update_infection_record s rid b nl na ty d n"
    by blast
  from iloc0_filter_mem [OF sel] have "sel \<in> set (infection_records s)" "i_id sel = rid"
    by (auto simp: get_infection_records_def order_by_desc_def)
  with key r have same: "sel = r"
    by (auto simp: distinct_map dest: inj_onD)
  from rem bi have remaining:
    "remaining = b_num_explants batch_info - get_total_infections_for_batch s b"
    by (simp add: remaining_healthy_def Let_def)
  have "remaining_healthy s2 b
      = Inr (b_num_explants batch_info - get_total_infections_for_batch s2 b)"
    using bi by (simp add: remaining_healthy_def Let_def s2 batches_after_update_infection)
  also have "get_total_infections_for_batch s2 b
      = get_total_infections_for_batch s b - current_lost_of r + nl"
    unfolding s2 by (rule total_after_same_batch_update [OF key r])
  finally have "remaining_healthy s2 b = Inr (remaining + current_lost_of r - nl)"
    by (simp add: remaining)
  moreover from le same remaining have "0 \<le> remaining + current_lost_of r - nl" by simp
  ultimately show ?thesis by simp
qed


lemma example_move_evaluated:
  "remaining_healthy example_batches_100_and_50 1 = Inr 40
   \<and> remaining_healthy example_batches_100_and_50 2 = Inr 50
   \<and> edit_infection_form example_batches_100_and_50 1 2 60 0 ''Fungal'' 1001 []
       = Inr (update_infection_record example_batches_100_and_50 1 2 60 0 ''Fungal'' 1001 [])
   \<and> remaining_healthy
         (update_infection_record example_batches_100_and_50 1 2 60 0 ''Fungal'' 1001 []) 2
       = Inr (- 10)"
  by (simp add: example_batches_100_and_50_def example_batch_100_def add_explant_batch_def
      add_infection_record_def empty_db_def Let_def remaining_healthy_def
      get_explant_batches_def get_infection_records_def order_by_desc_def
      get_total_infections_for_batch_def sum_or_zero_def lost_of_def current_lost_of_def
      edit_infection_form_def edit_infection_form_submit_def update_infection_record_def
      number_input_def in_bounds_def selectbox_def)

lemma example_same_batch_edit_accepted:
  "edit_infection_form example_batch_100_lost_70 1 1 80 0 ''Fungal'' 1001 []
     = Inr (update_infection_record example_batch_100_lost_70 1 1 80 0 ''Fungal'' 1001 [])"
  by (simp add: example_batch_100_lost_70_def example_batch_100_def add_explant_batch_def
      add_infection_record_def empty_db_def Let_def
      get_explant_batches_def get_infection_records_def order_by_desc_def
      get_total_infections_for_batch_def sum_or_zero_def lost_of_def current_lost_of_def
      edit_infection_form_def edit_infection_form_submit_def
      number_input_def in_bounds_def selectbox_def)

lemma example_lost_70_records:
  "infection_records example_batch_100_lost_70 =
     [\<lparr>i_id = 1, i_batch_id = 1, i_num_infected = 70, i_infection_type = ''Fungal'',
       i_identification_date = 1001, i_notes = [], i_num_lost = Some 70,
       i_num_affected = Some 0\<rparr>]"
  by (simp add: example_batch_100_lost_70_def example_batch_100_def add_explant_batch_def
      add_infection_record_def empty_db_def Let_def)

lemma example_batch_100_remaining: "remaining_healthy example_batch_100 1 = Inr 100"
  by (simp add: example_batch_100_def add_explant_batch_def empty_db_def Let_def
      remaining_healthy_def get_explant_batches_def order_by_desc_def
      get_total_infections_for_batch_def sum_or_zero_def)

text \<open>
  \<^bold>\<open>C10.\<close> The Edit Batch form applies the submitted \<open>num_explants\<close> without reading
  the contamination records (an accepted edit is \<open>update_explant_batch\<close> with the
  submitted values, and acceptance does not depend on \<open>infection_records\<close>), and from
  the empty store a batch of 100 with 70 lost, edited to 50 explants, ends with the
  remaining healthy count \<open>- 20\<close>. Of the contamination-record operations, recording a
  new record keeps the count non-negative, and so does editing a record that stays on
  its batch (record ids distinct, the primary key). Editing a record onto another batch
  does not: with batch 1 (100 explants, one record of 60 lost) and batch 2 (50 explants,
  no record), the Edit Contamination Record form accepts moving the record to batch 2
  with 60 lost, since it computes \<open>remaining = 50 - 0 + 60 = 110\<close>, and batch 2 is left
  with the remaining healthy count \<open>- 10\<close>.
\<close>

theorem healthy_invariant_under_edits:
  "(edit_batch_form s bid oid name n et mt d ps h a notes = Inr s2 \<longrightarrow>
      s2 = update_explant_batch s bid oid name n et mt (or_none h) (or_none a) d notes ps
      \<and> infection_records s2 = infection_records s
      \<and> map b_num_explants (filter (\<lambda>b. b_id b = bid) (explant_batches s2))
          = map (\<lambda>b. n) (filter (\<lambda>b. b_id b = bid) (explant_batches s)))
   \<and> edit_batch_form (s\<lparr>infection_records := irs\<rparr>) bid oid name n et mt d ps h a notes
       = (case edit_batch_form s bid oid name n et mt d ps h a notes of
            Inl e \<Rightarrow> Inl e
          | Inr s3 \<Rightarrow> Inr (s3\<lparr>infection_records := irs\<rparr>))
   \<and> (\<exists>rid s1 s3.
         infection_form example_batch_100 1 70 0 ''Fungal'' 1001 [] = Inr (rid, s1)
         \<and> remaining_healthy s1 1 = Inr 30
         \<and> edit_batch_form s1 1 None ''B1'' 50 ''Node'' ''50% MS'' 1000 None [] [] [] = Inr s3
         \<and> remaining_healthy s3 1 = Inr (- 20))
   \<and> (\<forall>t b remaining nl na ty dt nt rid t1.
         remaining_healthy t b = Inr remaining
         \<and> infection_form t b nl na ty dt nt = Inr (rid, t1)
         \<longrightarrow> remaining_healthy t1 b = Inr (remaining - nl) \<and> 0 \<le> remaining - nl)
   \<and> (\<forall>t r b remaining nl na ty dt nt t2.
         distinct (map i_id (infection_records t)) \<and> r \<in> set (infection_records t)
         \<and> i_batch_id r = b \<and> remaining_healthy t b = Inr remaining
         \<and> edit_infection_form t (i_id r) b nl na ty dt nt = Inr t2
         \<longrightarrow> remaining_healthy t2 b = Inr (remaining + current_lost_of r - nl)
             \<and> 0 \<le> remaining + current_lost_of r - nl)
   \<and> remaining_healthy example_batches_100_and_50 1 = Inr 40
   \<and> remaining_healthy example_batches_100_and_50 2 = Inr 50
   \<and> edit_infection_form example_batches_100_and_50 1 2 60 0 ''Fungal'' 1001 []
       = Inr (update_infection_record example_batches_100_and_50 1 2 60 0 ''Fungal'' 1001 [])
   \<and> remaining_healthy
         (update_infection_record example_batches_100_and_50 1 2 60 0 ''Fungal'' 1001 []) 2
       = Inr (- 10)"
proof -
  have a: "(edit_batch_form s bid oid name n et mt d ps h a notes = Inr s2 \<longrightarrow>
      s2 = update_explant_batch s bid oid name n et mt (or_none h) (or_none a) d notes ps
      \<and> infection_records s2 = infection_records s
      \<and> map b_num_explants (filter (\<lambda>b. b_id b = bid) (explant_batches s2))
          = map (\<lambda>b. n) (filter (\<lambda>b. b_id b = bid) (explant_batches s)))
   \<and> edit_batch_form (s\<lparr>infection_records := irs\<rparr>) bid oid name n et mt d ps h a notes
       = (case edit_batch_form s bid oid name n et mt d ps h a notes of
            Inl e \<Rightarrow> Inl e
          | Inr s3 \<Rightarrow> Inr (s3\<lparr>infection_records := irs\<rparr>))
   \<and> (\<exists>rid s1 s3.
         infection_form example_batch_100 1 70 0 ''Fungal'' 1001 [] = Inr (rid, s1)
         \<and> remaining_healthy s1 1 = Inr 30
         \<and> edit_batch_form s1 1 None ''B1'' 50 ''Node'' ''50% MS'' 1000 None [] [] [] = Inr s3
         \<and> remaining_healthy s3 1 = Inr (- 20))"
    by (rule edit_batch_form_never_reads_losses)
  have b: "\<forall>t b remaining nl na ty dt nt rid t1.
         remaining_healthy t b = Inr remaining
         \<and> infection_form t b nl na ty dt nt = Inr (rid, t1)
         \<longrightarrow> remaining_healthy t1 b = Inr (remaining - nl) \<and> 0 \<le> remaining - nl"
  proof (intro allI impI)
    fix t b remaining nl na ty dt nt rid t1
    assume h: "remaining_healthy t b = Inr remaining
         \<and> infection_form t b nl na ty dt nt = Inr (rid, t1)"
    from infection_form_accepted [of t b nl na ty dt nt "(rid, t1)"] h
    have le: "nl \<le> remaining"
      and res: "(rid, t1) = add_infection_record t b nl na ty dt nt"
      by auto
    from res have "t1 = snd (add_infection_record t b nl na ty dt nt)"
      by (metis snd_conv)
    with remaining_after_add_infection [of t b remaining nl na ty dt nt] h le
    show "remaining_healthy t1 b = Inr (remaining - nl) \<and> 0 \<le> remaining - nl"
      by simp
  qed
  have c: "\<forall>t r b remaining nl na ty dt nt t2.
         distinct (map i_id (infection_records t)) \<and> r \<in> set (infection_records t)
         \<and> i_batch_id r = b \<and> remaining_healthy t b = Inr remaining
         \<and> edit_infection_form t (i_id r) b nl na ty dt nt = Inr t2
         \<longrightarrow> remaining_healthy t2 b = Inr (remaining + current_lost_of r - nl)
             \<and> 0 \<le> remaining + current_lost_of r - nl"
  proof (intro allI impI)
    fix t r b remaining nl na ty dt nt t2
    assume h: "distinct (map i_id (infection_records t)) \<and> r \<in> set (infection_records t)
         \<and> i_batch_id r = b \<and> remaining_healthy t b = Inr remaining
         \<and> edit_infection_form t (i_id r) b nl na ty dt nt = Inr t2"
    then show "remaining_healthy t2 b = Inr (remaining + current_lost_of r - nl)
             \<and> 0 \<le> remaining + current_lost_of r - nl"
      using edit_infection_same_batch_keeps_nonnegative
        [of t r "i_id r" b remaining nl na ty dt nt t2]
      by blast
  qed
  from a b c example_move_evaluated show ?thesis
    by (intro conjI) (elim conjE, assumption)+
qed


theorem healthy_invariant_under_edits_witness:
  "edit_batch_form example_batch_100_lost_70 1 None ''B1'' 50 ''Node'' ''50% MS'' 1000 None [] [] []
     = Inr (update_explant_batch example_batch_100_lost_70 1 None ''B1'' 50 ''Node'' ''50% MS''
              None None 1000 [] None)
   \<and> infection_records
        (update_explant_batch example_batch_100_lost_70 1 None ''B1'' 50 ''Node'' ''50% MS''
              None None 1000 [] None) = infection_records example_batch_100_lost_70
   \<and> remaining_healthy example_batch_100_lost_70 1 = Inr 30
   \<and> remaining_healthy
        (update_infection_record example_batch_100_lost_70 1 1 80 0 ''Fungal'' 1001 []) 1
       = Inr 20"
proof -
  let ?s2 = "update_explant_batch example_batch_100_lost_70 1 None ''B1'' 50 ''Node'' ''50% MS''
              None None 1000 [] None"
  let ?r = "\<lparr>i_id = 1, i_batch_id = 1, i_num_infected = 70, i_infection_type = ''Fungal'',
       i_identification_date = 1001, i_notes = [], i_num_lost = Some 70,
       i_num_affected = Some 0\<rparr>"
  note t = healthy_invariant_under_edits
    [of example_batch_100_lost_70 1 None "''B1''" 50 "''Node''" "''50% MS''" 1000 None "[]" "[]"
       "[]" ?s2]
  from t [THEN conjunct1] example_edit_accepted
  have i: "infection_records ?s2 = infection_records example_batch_100_lost_70"
    by blast
  note add = t [THEN conjunct2, THEN conjunct2, THEN conjunct2, THEN conjunct1]
  from add example_batch_100_remaining example_lost_70_accepted
  have "remaining_healthy example_batch_100_lost_70 1 = Inr (100 - 70)"
    by blast
  then have r30: "remaining_healthy example_batch_100_lost_70 1 = Inr 30" by simp
  note edit =
    t [THEN conjunct2, THEN conjunct2, THEN conjunct2, THEN conjunct2, THEN conjunct1]
  have k: "distinct (map i_id (infection_records example_batch_100_lost_70))"
    and m: "?r \<in> set (infection_records example_batch_100_lost_70)"
    by (simp_all add: example_lost_70_records)
  have rb: "i_batch_id ?r = 1" and ri: "i_id ?r = 1" and rl: "current_lost_of ?r = 70"
    by (simp_all add: current_lost_of_def)
  from example_same_batch_edit_accepted ri
  have acc: "edit_infection_form example_batch_100_lost_70 (i_id ?r) 1 80 0 ''Fungal'' 1001 []
     = Inr (update_infection_record example_batch_100_lost_70 1 1 80 0 ''Fungal'' 1001 [])"
    by simp
  from edit k m rb r30 acc
  have "remaining_healthy
        (update_infection_record example_batch_100_lost_70 1 1 80 0 ''Fungal'' 1001 []) 1
       = Inr (30 + current_lost_of ?r - 80)"
    by blast
  then have r20: "remaining_healthy
        (update_infection_record example_batch_100_lost_70 1 1 80 0 ''Fungal'' 1001 []) 1
       = Inr 20"
    by (simp only: rl) simp
  from example_edit_accepted i r30 r20 show ?thesis by (intro conjI)
qed

subsection \<open>The two healthy figures\<close>

lemmas ex_defs = example_lost_10_affected_5_def example_batch_100_def
  example_rooting_transfer_50_def example_placed_30_def
  add_infection_record_def add_explant_batch_def add_transfer_record_def add_rooting_record_def
  empty_db_def Let_def

text \<open>
  The summary's \<open>healthy\<close> is the initial count minus the sum of \<open>num_infected\<close>, the
  legacy aggregate that \<open>add_infection_record\<close> writes as \<open>num_lost + num_affected\<close>.
\<close>

lemma batch_summary_healthy_eq:
  assumes "get_batch_summary s b = Some summary"
  shows "bs_healthy summary = b_num_explants (bs_batch summary)
           - sum_list (map i_num_infected (filter (\<lambda>r. i_batch_id r = b) (infection_records s)))"
proof -
  have col: "sum_or_zero (map (\<lambda>r. Some (i_num_infected r)) rs) = sum_list (map i_num_infected rs)"
    for rs
    using sum_or_zero_map_Some [of "map i_num_infected rs"] by (simp add: o_def)
  from assms show ?thesis
    by (auto simp: get_batch_summary_def Let_def col split: list.splits)
qed

text \<open>
  \<^bold>\<open>C2.\<close> The two places disagree. On a batch of 100, the Record Contamination form
  accepts a record with 10 lost and 5 affected; afterwards
  \<open>get_total_infections_for_batch\<close> is 10 and the form's remaining healthy count is
  \<open>90 = 100 - 10\<close>, the initial count minus the sum of \<open>num_lost\<close>, while the \<open>healthy\<close>
  figure of \<open>get_batch_summary\<close> is \<open>85 = 100 - 15\<close>: it subtracts the affected explants
  as well.
\<close>

theorem batch_summary_healthy_subtracts_affected:
  "infection_form example_batch_100 1 10 5 ''Fungal'' 1001 [] = Inr (1, example_lost_10_affected_5)
   \<and> get_total_infections_for_batch example_lost_10_affected_5 1 = 10
   \<and> remaining_healthy example_lost_10_affected_5 1 = Inr 90
   \<and> map_option bs_healthy (get_batch_summary example_lost_10_affected_5 1) = Some 85"
  by (simp add: ex_defs infection_form_def infection_form_submit_def remaining_healthy_def
      get_explant_batches_def order_by_desc_def get_total_infections_for_batch_def
      sum_or_zero_def lost_of_def number_input_def in_bounds_def selectbox_def
      get_batch_summary_def)

subsection \<open>Rooting records\<close>

lemma sum_list_insort_key:
  "sum_list (map f (insort_key k x xs)) = f x + sum_list (map f xs)"
  for f :: "'a \<Rightarrow> int"
  by (induction xs) simp_all

lemma sum_list_sort_key: "sum_list (map f (sort_key k xs)) = sum_list (map f xs)"
  for f :: "'a \<Rightarrow> int"
  by (induction xs) (simp_all add: sum_list_insort_key)

lemma already_placed_after_add:
  "already_placed (snd (add_rooting_record s (Some tid) b np pd nr rd n)) tid
     = already_placed s tid + np"
  by (simp add: already_placed_def get_rooting_records_def order_by_desc_def
      add_rooting_record_def Let_def sum_list_sort_key)

text \<open>
  What an accepted submission of the Record Rooting form went through: the transfer is
  a transfer to rooting media and the cumulative number placed, the new placement
  included, stays within its \<open>explants_out\<close>. Nothing bounds the number rooted.
\<close>

lemma rooting_form_accepted:
  assumes "rooting_form s tid np pd nr rd n = Inr res"
  shows "\<exists>t. t \<in> set (transfer_records s) \<and> t_id t = tid
           \<and> t_new_media t = ''Rooting Media''
           \<and> already_placed s tid + np \<le> t_explants_out t
           \<and> res = add_rooting_record s (Some tid) (t_batch_id t) np pd
                     (if nr > 0 then Some nr else None) rd n"
proof -
  from assms obtain t where
    sel: "iloc0 (filter (\<lambda>t. t_id t = tid) (rooting_transfers s)) = Inr t"
    and le: "np \<le> (if get_rooting_records s None (Some tid) \<noteq> []
                    then t_explants_out t - already_placed s tid else t_explants_out t)"
    and res: "res = add_rooting_record s (Some tid) (t_batch_id t) np pd
                     (if nr > 0 then Some nr else None) rd n"
    by (auto simp: rooting_form_def rooting_form_submit_def selectbox_def number_input_def
        Let_def split: if_splits sum.splits)
  from sel have "t \<in> set (filter (\<lambda>t. t_id t = tid) (rooting_transfers s))"
    by (cases "filter (\<lambda>t. t_id t = tid) (rooting_transfers s)") auto
  then have t: "t \<in> set (transfer_records s)" "t_id t = tid" "t_new_media t = ''Rooting Media''"
    by (auto simp: rooting_transfers_def get_transfer_records_def order_by_desc_def)
  have "get_rooting_records s None (Some tid) = [] \<Longrightarrow> already_placed s tid = 0"
    by (simp add: already_placed_def)
  with le have "already_placed s tid + np \<le> t_explants_out t"
    by (cases "get_rooting_records s None (Some tid) = []") auto
  with t res show ?thesis by blast
qed

text \<open>The create path keeps the bound of the transfer it places against.\<close>

lemma rooting_form_keeps_bound:
  assumes "rooting_form s tid np pd nr rd n = Inr (rid, s2)"
  shows "\<exists>t. t \<in> set (transfer_records s2) \<and> t_id t = tid
           \<and> already_placed s2 tid \<le> t_explants_out t"
proof -
  from rooting_form_accepted [OF assms] obtain t where
    t: "t \<in> set (transfer_records s)" "t_id t = tid"
    and le: "already_placed s tid + np \<le> t_explants_out t"
    and res: "(rid, s2) = add_rooting_record s (Some tid) (t_batch_id t) np pd
                     (if nr > 0 then Some nr else None) rd n"
    by blast
  from res have s2: "s2 = snd (add_rooting_record s (Some tid) (t_batch_id t) np pd
                     (if nr > 0 then Some nr else None) rd n)"
    by (metis snd_conv)
  have "transfer_records s2 = transfer_records s"
    by (simp add: s2 add_rooting_record_def Let_def)
  moreover have "already_placed s2 tid = already_placed s tid + np"
    unfolding s2 by (rule already_placed_after_add)
  ultimately show ?thesis using t le by auto
qed

text \<open>
  The two update paths bound the number rooted by the number placed, through the
  \<open>max_value\<close> of their number input.
\<close>

lemma update_rooting_form_accepted:
  assumes "update_rooting_form s fb rid nr d = Inr s2"
  shows "\<exists>r. r \<in> set (rooting_records s) \<and> r_id r = rid \<and> 0 \<le> nr \<and> nr \<le> r_num_placed r
           \<and> s2 = update_rooting_record s rid nr (Some d)"
proof -
  from assms obtain fb' r where
    sel: "iloc0 (filter (\<lambda>r. r_id r = rid) (get_rooting_records s fb' None)) = Inr r"
    and b: "in_bounds 0 (Some (r_num_placed r)) nr"
    and s2: "s2 = update_rooting_record s rid nr (Some d)"
    by (auto simp: update_rooting_form_def selectbox_def number_input_def Let_def
        split: if_splits sum.splits)
  from sel have "r \<in> set (filter (\<lambda>r. r_id r = rid) (get_rooting_records s fb' None))"
    by (cases "filter (\<lambda>r. r_id r = rid) (get_rooting_records s fb' None)") auto
  then have "r \<in> set (rooting_records s) \<and> r_id r = rid"
    by (auto simp: get_rooting_records_def order_by_desc_def split: if_splits)
  with b s2 show ?thesis by (auto simp: in_bounds_def)
qed

lemma edit_rooting_form_accepted:
  assumes "edit_rooting_form s rid tid b np pd nr rd n = Inr s2"
  shows "\<exists>tid'. 1 \<le> np \<and> 0 \<le> nr \<and> nr \<le> np
           \<and> s2 = update_rooting_record_full s rid tid' b np pd
                     (if nr > 0 then Some nr else None) rd n"
  using assms
  by (auto simp: edit_rooting_form_def selectbox_def number_input_def in_bounds_def Let_def
      split: if_splits sum.splits)

text \<open>
  \<^bold>\<open>C4.\<close> The create path holds the bound, the edit path does not. For the transfer
  with \<open>explants_out = 50\<close>: the Record Rooting form accepts a placement of 30 and then
  rejects one of 25 (its submit test answers "Cannot place more explants than
  available"); but the Edit Rooting Record form accepts changing the first record to
  60 placed, after which the cumulative number placed for the transfer is 60, above 50.
\<close>

theorem rooting_edit_exceeds_explants_out:
  "rooting_form example_rooting_transfer_50 1 30 1005 0 None [] = Inr (1, example_placed_30)
   \<and> isl (rooting_form example_placed_30 1 25 1005 0 None [])
   \<and> rooting_form_submit example_placed_30 1 1 (50 - already_placed example_placed_30 1) 25 1005
        0 None [] = Inl (Rejected ''Cannot place more explants than available'')
   \<and> map t_explants_out (transfer_records example_placed_30) = [50]
   \<and> edit_rooting_form example_placed_30 1 (Some 1) 1 60 1005 0 None []
       = Inr (update_rooting_record_full example_placed_30 1 (Some 1) 1 60 1005 None None [])
   \<and> already_placed
        (update_rooting_record_full example_placed_30 1 (Some 1) 1 60 1005 None None []) 1 = 60"
  by (simp add: ex_defs rooting_form_def rooting_form_submit_def rooting_transfers_def
      get_transfer_records_def get_rooting_records_def get_explant_batches_def
      order_by_desc_def already_placed_def number_input_def in_bounds_def selectbox_def
      edit_rooting_form_def update_rooting_record_full_def)

text \<open>
  \<^bold>\<open>C5.\<close> The add path does not bound the number rooted. For the transfer with
  \<open>explants_out = 50\<close> the Record Rooting form accepts 5 placed with 10 rooted and stores
  the record with \<open>num_placed = 5\<close> and \<open>num_rooted = 10\<close>.
\<close>

theorem rooting_form_accepts_more_rooted_than_placed:
  "rooting_form example_rooting_transfer_50 1 5 1005 10 None []
     = Inr (1, snd (add_rooting_record example_rooting_transfer_50 (Some 1) 1 5 1005 (Some 10)
                      None []))
   \<and> map (\<lambda>r. (r_num_placed r, r_num_rooted r))
        (rooting_records
           (snd (add_rooting_record example_rooting_transfer_50 (Some 1) 1 5 1005 (Some 10)
                   None []))) = [(5, Some 10)]"
  by (simp add: ex_defs rooting_form_def rooting_form_submit_def rooting_transfers_def
      get_transfer_records_def get_rooting_records_def get_explant_batches_def
      order_by_desc_def already_placed_def number_input_def in_bounds_def selectbox_def)

subsection \<open>The Gantt chart\<close>

lemmas gantt_defs = add_order_def add_explant_batch_def add_transfer_record_def empty_db_def
  Let_def gantt_chart_def gantt_batch_def gantt_else_def batches_with_orders_def
  get_orders_def get_explant_batches_def get_transfer_records_def get_rooting_records_def
  get_delivery_records_def order_by_desc_def order_completion_of_def marker_def gap_before_def

text \<open>
  \<^bold>\<open>C6.\<close> With initiation on day \<open>D\<close> and the first transfer on day \<open>D + 5\<close>, the loop
  body emits the passive-time interval from \<open>D + 1\<close> to \<open>D + 5\<close> (4 days) twice between
  the initiation marker and the transfer marker: once by the "Initiation to First
  Transfer" test and once more by the first round of the transfer walk, which starts
  from \<open>prev_date = init_end\<close>.
\<close>

theorem gantt_first_gap_emitted_twice:
  "gantt_loop (example_first_transfer D) (batches_with_orders (example_first_transfer D)) ([], None)
     = Inr ([\<lparr>g_cultivar = ''Cv'', g_task = Order_Received, g_start = D, g_finish = D + 1,
               g_duration = 1\<rparr>,
             \<lparr>g_cultivar = ''Cv'', g_task = Explant_Initiation, g_start = D, g_finish = D + 1,
               g_duration = 1\<rparr>,
             \<lparr>g_cultivar = ''Cv'', g_task = Passive_Time, g_start = D + 1, g_finish = D + 5,
               g_duration = 4\<rparr>,
             \<lparr>g_cultivar = ''Cv'', g_task = Passive_Time, g_start = D + 1, g_finish = D + 5,
               g_duration = 4\<rparr>,
             \<lparr>g_cultivar = ''Cv'', g_task = Transfer 1 ''50% MS'' 100 50 False,
               g_start = D + 5, g_finish = D + 6, g_duration = 1\<rparr>],
            Some (D + 6))"
  by (simp add: example_first_transfer_def gantt_defs)

text \<open>
  \<^bold>\<open>C7.\<close> The interval "from the day after initiation through today" is emitted once per
  chart, by the \<open>else\<close> clause of the loop, for the batch the loop visited last. With
  batch 2 (\<open>CvB\<close>, no transfer, visited first) and batch 1 (\<open>CvA\<close>, one transfer, visited
  last) and today day 1010, the chart has no such interval for \<open>CvB\<close> and has one, from
  day 1001 to day 1010, for \<open>CvA\<close>, the batch that has a transfer.
\<close>

theorem gantt_passive_to_today_only_after_loop:
  "gantt_chart example_two_batches [] 1010
     = Inr [\<lparr>g_cultivar = ''CvB'', g_task = Order_Received, g_start = 1001, g_finish = 1002,
              g_duration = 1\<rparr>,
            \<lparr>g_cultivar = ''CvB'', g_task = Explant_Initiation, g_start = 1001,
              g_finish = 1002, g_duration = 1\<rparr>,
            \<lparr>g_cultivar = ''CvA'', g_task = Order_Received, g_start = 1000, g_finish = 1001,
              g_duration = 1\<rparr>,
            \<lparr>g_cultivar = ''CvA'', g_task = Explant_Initiation, g_start = 1000,
              g_finish = 1001, g_duration = 1\<rparr>,
            \<lparr>g_cultivar = ''CvA'', g_task = Transfer 1 ''50% MS'' 100 50 False,
              g_start = 1001, g_finish = 1002, g_duration = 1\<rparr>,
            \<lparr>g_cultivar = ''CvA'', g_task = Passive_Time, g_start = 1001, g_finish = 1010,
              g_duration = 9\<rparr>]"
  by (simp add: example_two_batches_def gantt_defs)

subsection \<open>Deleting an order\<close>

text \<open>\<open>delete_order\<close> removes the rows of \<open>orders\<close> with that id and touches nothing else.\<close>

lemma delete_order_only_removes_order:
  "delete_order s order_id = s\<lparr>orders := filter (\<lambda>r. o_id r \<noteq> order_id) (orders s)\<rparr>
   \<and> explant_batches (delete_order s order_id) = explant_batches s
   \<and> infection_records (delete_order s order_id) = infection_records s
   \<and> transfer_records (delete_order s order_id) = transfer_records s
   \<and> rooting_records (delete_order s order_id) = rooting_records s
   \<and> delivery_records (delete_order s order_id) = delivery_records s
   \<and> labels (delete_order s order_id) = labels s"
  by (simp add: delete_order_def)

text \<open>
  \<^bold>\<open>C9.\<close> With orders 1 and 2 and a batch linked to order 1, deleting order 1 leaves the
  batch row as it was, its order reference still 1, and only order 2 in \<open>orders\<close>. The
  Edit Batch form then preselects "None" for the batch, but the Batch Timeline tab,
  which showed order 1 before, now takes \<open>.iloc[0]\<close> of an empty frame: \<open>IndexError\<close>.
\<close>

theorem batch_timeline_fails_on_deleted_order:
  "explant_batches (delete_order example_two_orders_one_batch 1)
     = explant_batches example_two_orders_one_batch
   \<and> map b_order_id (explant_batches (delete_order example_two_orders_one_batch 1)) = [Some 1]
   \<and> map o_id (orders (delete_order example_two_orders_one_batch 1)) = [2]
   \<and> map_sum id (map_option o_id) (batch_timeline_order_info example_two_orders_one_batch 1)
       = Inr (Some 1)
   \<and> batch_timeline_order_info (delete_order example_two_orders_one_batch 1) 1 = Inl IndexError
   \<and> map (edit_batch_default_order (delete_order example_two_orders_one_batch 1))
        (explant_batches (delete_order example_two_orders_one_batch 1)) = [None]"
  by (simp add: example_two_orders_one_batch_def delete_order_def batch_timeline_order_info_def
      edit_batch_default_order_def gantt_defs)

end
